theory Spec2Isabelle
  imports Main
begin

section \<open>MaStR wind download: data model\<close>

text \<open>
  The program (\<^verbatim>\<open>mastr_wind_download.py\<close>) fetches tables from a SOAP registry,
  holds them as pandas data frames and writes them to semicolon-separated files.

  A cell of a data frame is either missing (\<^verbatim>\<open>None\<close>/\<^verbatim>\<open>NaN\<close>) or a value, carried as
  the text that \<^verbatim>\<open>str()\<close> gives for it, which is what \<^verbatim>\<open>to_csv\<close> writes.
\<close>

datatype cell = NaN | Str string

text \<open>
  A data frame: the name of its index, its column names, one index label per row and
  the rows, each a list of cells in column order. Index labels are the non-negative
  integers pandas assigns (a \<^verbatim>\<open>RangeIndex\<close>, or the label \<^verbatim>\<open>1\<close> that a transposed
  two-column frame keeps).
\<close>

record dataframe =
  index_name :: "string option"
  columns :: "string list"
  index :: "nat list"
  rows :: "cell list list"

text \<open>The exceptions of the source and of the libraries it calls, as values.\<close>

datatype error =
    KeyError string
  | IndexError
  | ValueError
  | AttributeError
  | FileNotFoundError
  | EmptyDataError
  | ParserError
  | Fault string

text \<open>\<^verbatim>\<open>KeyError\<close> and \<^verbatim>\<open>IndexError\<close> are the subclasses of Python's \<^verbatim>\<open>LookupError\<close>.\<close>

fun is_LookupError :: "error \<Rightarrow> bool" where
  "is_LookupError (KeyError k) = True"
| "is_LookupError IndexError = True"
| "is_LookupError e = False"

text \<open>
  A file is the list of its lines, each line the list of its fields: the separator
  (\<^verbatim>\<open>;\<close>), the line terminator and the quoting of a field are the CSV library's.
  The requests sent to the registry are logged in the order they are made.
\<close>

type_synonym csv_line = "string list"

datatype request =
    GetGefilterteListeStromErzeuger int int
  | GetEinheitWind cell
  | GetAnlageEegWind cell

record world =
  files :: "string \<rightharpoonup> csv_line list"
  calls :: "request list"

section \<open>Writing a frame: \<^verbatim>\<open>write_to_csv\<close>\<close>

text \<open>Python's \<^verbatim>\<open>str\<close> of a non-negative integer: its decimal digits.\<close>

definition digit_char :: "nat \<Rightarrow> char" where
  "digit_char d = ''0123456789'' ! d"

fun str_nat :: "nat \<Rightarrow> string" where
  "str_nat n = (if n < 10 then [digit_char n] else str_nat (n div 10) @ [digit_char (n mod 10)])"

declare str_nat.simps [simp del]

text \<open>\<^verbatim>\<open>to_csv\<close> writes a missing cell as the empty field (\<^verbatim>\<open>na_rep=''\<close>).\<close>

fun render :: "cell \<Rightarrow> string" where
  "render NaN = []"
| "render (Str s) = s"

text \<open>
  The header line is the index name (empty when the index has none) followed by the
  column names; a data line is the row's index label followed by its cells
  (\<^verbatim>\<open>to_csv\<close> writes the index by default).
\<close>

definition csv_header :: "dataframe \<Rightarrow> csv_line" where
  "csv_header df = (case index_name df of None \<Rightarrow> [] | Some n \<Rightarrow> n) # columns df"

definition csv_rows :: "dataframe \<Rightarrow> csv_line list" where
  "csv_rows df = map (\<lambda>(i, r). str_nat i # map render r) (zip (index df) (rows df))"

text \<open>
  \<^verbatim>\<open>df.to_csv(csv_name, sep=';', mode='a' if append else 'w', header=not append, ...)\<close>:
  mode \<^verbatim>\<open>w\<close> truncates or creates the file, mode \<^verbatim>\<open>a\<close> opens it at its end and
  creates it when it is missing.
\<close>

definition write_to_csv :: "string \<Rightarrow> dataframe \<Rightarrow> bool \<Rightarrow> world \<Rightarrow> world" where
  "write_to_csv csv_name df appnd w =
     w\<lparr>files := (files w)(csv_name \<mapsto>
          (if appnd
           then (case files w csv_name of None \<Rightarrow> [] | Some old \<Rightarrow> old) @ csv_rows df
           else csv_header df # csv_rows df))\<rparr>"

section \<open>The collaborators: configuration, clock, registry and CSV parser\<close>

text \<open>
  The modules \<^verbatim>\<open>config\<close> (\<^verbatim>\<open>get_data_version\<close>) and \<^verbatim>\<open>sessions\<close> (\<^verbatim>\<open>mastr_session\<close>,
  which gives the bound SOAP client) are imported by the source and are not part of it,
  so what they supply is a parameter of every function here:

  \<^item> \<open>data_version\<close>: the string \<^verbatim>\<open>get_data_version()\<close> returns;
  \<^item> \<open>now n\<close>: \<^verbatim>\<open>str(datetime.datetime.now())\<close> as read while the request number \<open>n\<close>
    (counting from 0) is handled;
  \<^item> \<open>bind_GetGefilterteListeStromErzeuger start limit\<close>: the member \<^verbatim>\<open>Einheiten\<close> of the
    serialized answer, a list of units, each an ordered dictionary, or the exception
    the client raises;
  \<^item> \<open>bind_GetEinheitWind\<close>, \<open>bind_GetAnlageEegWind\<close>: the serialized answer to a keyed
    request, an ordered dictionary, or the exception the client raises.

  Three more parameters stand for behaviour of the CSV parser that the source leaves to
  its defaults: the strings read as missing besides the empty one (\<open>na_values\<close>), the
  typing of a column that the \<^verbatim>\<open>dtype\<close> dictionary does not declare (\<open>infer_column\<close>),
  and the reading of a file that is not a rectangular table under a header of distinct,
  non-empty names (\<open>parse_irregular\<close>: renamed duplicate columns, padded short lines).
\<close>

record env =
  data_version :: string
  now :: "nat \<Rightarrow> string"
  bind_GetGefilterteListeStromErzeuger :: "int \<Rightarrow> int \<Rightarrow> error + (string \<times> cell) list list"
  bind_GetEinheitWind :: "cell \<Rightarrow> error + (string \<times> cell) list"
  bind_GetAnlageEegWind :: "cell \<Rightarrow> error + (string \<times> cell) list"
  na_values :: "string list"
  infer_column :: "string list \<Rightarrow> cell list"
  parse_irregular :: "csv_line list \<Rightarrow> error + dataframe"

section \<open>Data frame operations\<close>

text \<open>The keys of a list of dictionaries, in the order of their first appearance.\<close>

definition ordered_keys :: "(string \<times> cell) list list \<Rightarrow> string list" where
  "ordered_keys ds = rev (remdups (rev (concat (map (map fst) ds))))"

text \<open>
  \<^verbatim>\<open>pd.DataFrame(list_of_dicts)\<close>: one row per dictionary, one column per key, a missing
  key gives a missing cell, the index is \<^verbatim>\<open>0 .. n-1\<close> and has no name. The empty list
  gives a frame with no columns and no rows.
\<close>

definition DataFrame :: "(string \<times> cell) list list \<Rightarrow> dataframe" where
  "DataFrame ds =
     (let cols = ordered_keys ds
      in \<lparr>index_name = None, columns = cols, index = [0..<length ds],
          rows = map (\<lambda>d. map (\<lambda>c. case map_of d c of None \<Rightarrow> NaN | Some v \<Rightarrow> v) cols) ds\<rparr>)"

text \<open>
  \<^verbatim>\<open>df[c] = v\<close> for a scalar \<open>v\<close>: an existing column is overwritten in place, a new one
  is appended as the last column.
\<close>

definition set_column :: "string \<Rightarrow> cell \<Rightarrow> dataframe \<Rightarrow> dataframe" where
  "set_column c v df =
     (if c \<in> set (columns df)
      then df\<lparr>rows := map (\<lambda>r. map (\<lambda>(k, x). if k = c then v else x) (zip (columns df) r)) (rows df)\<rparr>
      else df\<lparr>columns := columns df @ [c], rows := map (\<lambda>r. r @ [v]) (rows df)\<rparr>)"

text \<open>Applying a function to the cells of one column.\<close>

definition map_column :: "string \<Rightarrow> (cell \<Rightarrow> cell) \<Rightarrow> dataframe \<Rightarrow> dataframe" where
  "map_column c f df =
     df\<lparr>rows := map (\<lambda>r. map (\<lambda>(k, x). if k = c then f x else x) (zip (columns df) r)) (rows df)\<rparr>"

text \<open>
  \<^verbatim>\<open>.str.replace('"', '')\<close> on one cell of \<^verbatim>\<open>Standort\<close>, which the registry delivers as
  a string or as \<^verbatim>\<open>None\<close>: a missing cell stays missing.
\<close>

fun str_replace_quote :: "cell \<Rightarrow> cell" where
  "str_replace_quote NaN = NaN"
| "str_replace_quote (Str s) = Str (filter (\<lambda>ch. ch \<noteq> CHR 0x22) s)"

text \<open>The position of a column, and a row's cell at a position.\<close>

fun column_index :: "string list \<Rightarrow> string \<Rightarrow> nat option" where
  "column_index [] c = None"
| "column_index (x # xs) c = (if x = c then Some 0 else map_option Suc (column_index xs c))"

definition cell_at :: "cell list \<Rightarrow> nat \<Rightarrow> cell" where
  "cell_at r j = (if j < length r then r ! j else NaN)"

text \<open>\<^verbatim>\<open>df[c].values.tolist()\<close>; \<open>None\<close> where pandas raises \<^verbatim>\<open>KeyError\<close>.\<close>

definition column_values :: "dataframe \<Rightarrow> string \<Rightarrow> cell list option" where
  "column_values df c =
     (case column_index (columns df) c of
        None \<Rightarrow> None
      | Some j \<Rightarrow> Some (map (\<lambda>r. cell_at r j) (rows df)))"

text \<open>
  \<^verbatim>\<open>df.drop_duplicates()\<close>: of rows that agree in every column the first stays, with its
  index label; two missing cells count as equal.
\<close>

fun drop_duplicates_rows :: "cell list list \<Rightarrow> (nat \<times> cell list) list \<Rightarrow> (nat \<times> cell list) list" where
  "drop_duplicates_rows seen [] = []"
| "drop_duplicates_rows seen ((i, r) # xs) =
     (if r \<in> set seen then drop_duplicates_rows seen xs
      else (i, r) # drop_duplicates_rows (r # seen) xs)"

definition drop_duplicates :: "dataframe \<Rightarrow> dataframe" where
  "drop_duplicates df =
     (let kept = drop_duplicates_rows [] (zip (index df) (rows df))
      in df\<lparr>index := map fst kept, rows := map snd kept\<rparr>)"

text \<open>\<^verbatim>\<open>df[mask]\<close>: the rows the mask selects, with their index labels.\<close>

definition select_rows :: "(cell list \<Rightarrow> bool) \<Rightarrow> dataframe \<Rightarrow> dataframe" where
  "select_rows keep df =
     (let kept = filter (\<lambda>(i, r). keep r) (zip (index df) (rows df))
      in df\<lparr>index := map fst kept, rows := map snd kept\<rparr>)"

section \<open>Record fetcher\<close>

text \<open>
  The part of \<^verbatim>\<open>get_power_unit\<close> after the request: build the frame, name the index
  \<^verbatim>\<open>lid\<close>, stamp \<^verbatim>\<open>version\<close> and \<^verbatim>\<open>timestamp\<close>, strip the double quotes from
  \<^verbatim>\<open>Standort\<close>. \<^verbatim>\<open>power_unit['Standort']\<close> raises \<^verbatim>\<open>KeyError\<close> when the frame has no such
  column.
\<close>

definition power_unit_frame :: "env \<Rightarrow> string \<Rightarrow> (string \<times> cell) list list \<Rightarrow> error + dataframe" where
  "power_unit_frame e ts einheiten =
     (let power_unit = DataFrame einheiten;
          power_unit = power_unit\<lparr>index_name := Some ''lid''\<rparr>;
          power_unit = set_column ''version'' (Str (data_version e)) power_unit;
          power_unit = set_column ''timestamp'' (Str ts) power_unit
      in if ''Standort'' \<in> set (columns power_unit)
         then Inr (map_column ''Standort'' str_replace_quote power_unit)
         else Inl (KeyError ''Standort''))"

definition get_power_unit :: "env \<Rightarrow> int \<Rightarrow> int \<Rightarrow> world \<Rightarrow> (error + dataframe) \<times> world" where
  "get_power_unit e start_from limit w =
     (let w' = w\<lparr>calls := calls w @ [GetGefilterteListeStromErzeuger start_from limit]\<rparr>
      in case bind_GetGefilterteListeStromErzeuger e start_from limit of
           Inl err \<Rightarrow> (Inl err, w')
         | Inr einheiten \<Rightarrow> (power_unit_frame e (now e (length (calls w))) einheiten, w'))"

text \<open>
  \<^verbatim>\<open>pd.DataFrame(list(s.items())).set_index(0).transpose()\<close>: the keys become the columns
  and the values the single row, whose index label is the remaining column name \<^verbatim>\<open>1\<close>.
  For an empty dictionary the frame has no columns and \<^verbatim>\<open>list(df.columns.values)[0]\<close>
  raises \<^verbatim>\<open>IndexError\<close>.
\<close>

definition transpose_items :: "(string \<times> cell) list \<Rightarrow> error + dataframe" where
  "transpose_items s =
     (case s of
        [] \<Rightarrow> Inl IndexError
      | kv # kvs \<Rightarrow> Inr \<lparr>index_name = None, columns = map fst s, index = [1], rows = [map snd s]\<rparr>)"

definition unit_frame :: "env \<Rightarrow> string \<Rightarrow> (string \<times> cell) list \<Rightarrow> error + dataframe" where
  "unit_frame e ts s =
     (case transpose_items s of
        Inl err \<Rightarrow> Inl err
      | Inr unit_wind \<Rightarrow>
          Inr (set_column ''timestamp'' (Str ts)
                (set_column ''version'' (Str (data_version e))
                  (unit_wind\<lparr>index_name := Some ''lid''\<rparr>))))"

definition get_power_unit_wind :: "env \<Rightarrow> cell \<Rightarrow> world \<Rightarrow> (error + dataframe) \<times> world" where
  "get_power_unit_wind e mastr_unit_wind w =
     (let w' = w\<lparr>calls := calls w @ [GetEinheitWind mastr_unit_wind]\<rparr>
      in case bind_GetEinheitWind e mastr_unit_wind of
           Inl err \<Rightarrow> (Inl err, w')
         | Inr s \<Rightarrow> (unit_frame e (now e (length (calls w))) s, w'))"

definition get_unit_wind_eeg :: "env \<Rightarrow> cell \<Rightarrow> world \<Rightarrow> (error + dataframe) \<times> world" where
  "get_unit_wind_eeg e mastr_wind_eeg w =
     (let w' = w\<lparr>calls := calls w @ [GetAnlageEegWind mastr_wind_eeg]\<rparr>
      in case bind_GetAnlageEegWind e mastr_wind_eeg of
           Inl err \<Rightarrow> (Inl err, w')
         | Inr s \<Rightarrow> (unit_frame e (now e (length (calls w))) s, w'))"

section \<open>Reading a frame: \<^verbatim>\<open>read_power_units\<close>\<close>

text \<open>A field of a column declared \<^verbatim>\<open>str\<close>: missing when empty or one of the NA strings.\<close>

definition parse_str :: "env \<Rightarrow> string \<Rightarrow> cell" where
  "parse_str e t = (if t = [] \<or> t \<in> set (na_values e) then NaN else Str t)"

text \<open>
  A rectangular table: a header of distinct, non-empty names and lines of as many
  fields as the header, none of them a blank line.
\<close>

definition plain_table :: "csv_line list \<Rightarrow> bool" where
  "plain_table ls =
     (case ls of
        [] \<Rightarrow> False
      | h # body \<Rightarrow> h \<noteq> [] \<and> distinct h \<and> [] \<notin> set h \<and>
                   list_all (\<lambda>r. length r = length h \<and> r \<noteq> [[]]) body)"

text \<open>
  \<^verbatim>\<open>pd.read_csv(csv_name, header=0, sep=';', index_col=False, dtype={...})\<close>: the first
  line names the columns, no column becomes the index (which is \<^verbatim>\<open>0 .. n-1\<close>, unnamed),
  and a column the dictionary declares \<^verbatim>\<open>str\<close> is read field by field.
\<close>

definition read_csv :: "env \<Rightarrow> string list \<Rightarrow> string \<Rightarrow> world \<Rightarrow> error + dataframe" where
  "read_csv e dtype csv_name w =
     (case files w csv_name of
        None \<Rightarrow> Inl FileNotFoundError
      | Some [] \<Rightarrow> Inl EmptyDataError
      | Some (h # body) \<Rightarrow>
          if plain_table (h # body)
          then (let cols = map (\<lambda>(j, c). let texts = map (\<lambda>r. r ! j) body
                                          in if c \<in> set dtype then map (parse_str e) texts
                                             else infer_column e texts)
                               (zip [0..<length h] h)
                in Inr \<lparr>index_name = None, columns = h, index = [0..<length body],
                        rows = map (\<lambda>i. map (\<lambda>col. cell_at col i) cols) [0..<length body]\<rparr>)
          else parse_irregular e (h # body))"

definition power_unit_dtype :: "string list" where
  "power_unit_dtype =
     [''lid'', ''EinheitMastrNummer'', ''Name'', ''Einheitart'', ''Einheittyp'', ''Standort'',
      ''Bruttoleistung'', ''Erzeugungsleistung'', ''EinheitBetriebsstatus'', ''Anlagenbetreiber'',
      ''EegMastrNummer'', ''KwkMastrNummer'', ''SpeMastrNummer'', ''GenMastrNummer'',
      ''BestandsanlageMastrNummer'', ''NichtVorhandenInMigriertenEinheiten'', ''version'',
      ''timestamp'']"

definition read_power_units :: "env \<Rightarrow> string \<Rightarrow> world \<Rightarrow> error + dataframe" where
  "read_power_units e csv_name w = read_csv e power_unit_dtype csv_name w"

section \<open>Pipeline driver\<close>

definition csv_see :: "env \<Rightarrow> string" where
  "csv_see e = ''data/bnetza_mastr_'' @ data_version e @ ''_stromerzeuger.csv''"

definition csv_see_wind :: "env \<Rightarrow> string" where
  "csv_see_wind e = ''data/bnetza_mastr_'' @ data_version e @ ''_stromerzeuger_wind.csv''"

definition csv_wind :: "env \<Rightarrow> string" where
  "csv_wind e = ''data/bnetza_mastr_'' @ data_version e @ ''_windeinheit.csv''"

definition csv_wind_eeg :: "env \<Rightarrow> string" where
  "csv_wind_eeg e = ''data/bnetza_mastr_'' @ data_version e @ ''_windeeg.csv''"

text \<open>
  \<^verbatim>\<open>setup_power_unit_wind\<close>: when the wind file is missing, read all units, drop
  duplicate rows, keep the rows of type \<^verbatim>\<open>Windeinheit\<close>, name the index (\<^verbatim>\<open>see_id\<close>, then
  \<^verbatim>\<open>id\<close>; the \<^verbatim>\<open>reset_index()\<close> between them is not assigned) and write the file;
  otherwise read the wind file. \<^verbatim>\<open>power_unit.Einheittyp\<close> raises \<^verbatim>\<open>AttributeError\<close>
  when there is no such column.
\<close>

definition setup_power_unit_wind :: "env \<Rightarrow> world \<Rightarrow> (error + dataframe) \<times> world" where
  "setup_power_unit_wind e w =
     (if files w (csv_see_wind e) = None
      then (case read_power_units e (csv_see e) w of
              Inl err \<Rightarrow> (Inl err, w)
            | Inr power_unit \<Rightarrow>
                (let power_unit = drop_duplicates power_unit
                 in case column_index (columns power_unit) ''Einheittyp'' of
                      None \<Rightarrow> (Inl AttributeError, w)
                    | Some j \<Rightarrow>
                        (let power_unit_wind =
                               select_rows (\<lambda>r. cell_at r j = Str ''Windeinheit'') power_unit;
                             power_unit_wind = power_unit_wind\<lparr>index_name := Some ''see_id''\<rparr>;
                             power_unit_wind = power_unit_wind\<lparr>index_name := Some ''id''\<rparr>
                         in (Inr power_unit_wind,
                             write_to_csv (csv_see_wind e) power_unit_wind False w))))
      else (case read_power_units e (csv_see_wind e) w of
              Inl err \<Rightarrow> (Inl err, w)
            | Inr power_unit_wind \<Rightarrow> (Inr power_unit_wind, w)))"

text \<open>
  Python's \<^verbatim>\<open>range(start, stop, step)\<close> over the integers: \<^verbatim>\<open>ValueError\<close> for a zero
  step, else the values \<^verbatim>\<open>start + k*step\<close> before \<^verbatim>\<open>stop\<close>, their number computed as
  CPython does.
\<close>

definition py_range :: "int \<Rightarrow> int \<Rightarrow> int \<Rightarrow> error + int list" where
  "py_range start stop step =
     (if step = 0 then Inl ValueError
      else if 0 < step
      then Inr (map (\<lambda>k. start + int k * step) [0..<nat ((stop - start + step - 1) div step)])
      else Inr (map (\<lambda>k. start + int k * step) [0..<nat ((start - stop - step - 1) div (- step))]))"

text \<open>
  \<^verbatim>\<open>download_power_unit\<close>: for every offset fetch a page and write it, appending from
  the second page on (\<^verbatim>\<open>start_from > 0\<close>). An exception ends the loop and leaves what was
  written.
\<close>

fun download_power_unit_loop ::
    "env \<Rightarrow> int \<Rightarrow> int list \<Rightarrow> world \<Rightarrow> (error + unit) \<times> world" where
  "download_power_unit_loop e limit [] w = (Inr (), w)"
| "download_power_unit_loop e limit (start_from # rest) w =
     (case get_power_unit e start_from limit w of
        (Inl err, w') \<Rightarrow> (Inl err, w')
      | (Inr power_unit, w') \<Rightarrow>
          download_power_unit_loop e limit rest
            (write_to_csv (csv_see e) power_unit (0 < start_from) w'))"

definition download_power_unit :: "env \<Rightarrow> int \<Rightarrow> int \<Rightarrow> world \<Rightarrow> (error + unit) \<times> world" where
  "download_power_unit e power_unit_list_len limit w =
     (case py_range 0 power_unit_list_len limit of
        Inl err \<Rightarrow> (Inl err, w)
      | Inr offsets \<Rightarrow> download_power_unit_loop e limit offsets w)"

text \<open>
  \<^verbatim>\<open>download_unit_wind\<close>: the identifiers are the column \<^verbatim>\<open>EinheitMastrNummer\<close> of the
  wind frame; the loop runs over the positions \<^verbatim>\<open>start_from .. len-1\<close> with
  \<^verbatim>\<open>start_from = 0\<close> and appends when \<^verbatim>\<open>i > start_from\<close>.
\<close>

fun download_unit_wind_loop ::
    "env \<Rightarrow> nat \<Rightarrow> (nat \<times> cell) list \<Rightarrow> world \<Rightarrow> (error + unit) \<times> world" where
  "download_unit_wind_loop e start_from [] w = (Inr (), w)"
| "download_unit_wind_loop e start_from ((i, mastr_nr) # rest) w =
     (case get_power_unit_wind e mastr_nr w of
        (Inl err, w') \<Rightarrow> (Inl err, w')
      | (Inr unit_wind, w') \<Rightarrow>
          download_unit_wind_loop e start_from rest
            (write_to_csv (csv_wind e) unit_wind (start_from < i) w'))"

definition download_unit_wind :: "env \<Rightarrow> world \<Rightarrow> (error + unit) \<times> world" where
  "download_unit_wind e w =
     (let start_from = 0
      in case setup_power_unit_wind e w of
           (Inl err, w') \<Rightarrow> (Inl err, w')
         | (Inr unit_wind, w') \<Rightarrow>
             (case column_values unit_wind ''EinheitMastrNummer'' of
                None \<Rightarrow> (Inl (KeyError ''EinheitMastrNummer''), w')
              | Some unit_wind_list \<Rightarrow>
                  download_unit_wind_loop e start_from
                    (drop start_from (zip [0..<length unit_wind_list] unit_wind_list)) w'))"

text \<open>\<^verbatim>\<open>download_unit_wind_eeg\<close>: the same over the column \<^verbatim>\<open>EegMastrNummer\<close>.\<close>

fun download_unit_wind_eeg_loop ::
    "env \<Rightarrow> (nat \<times> cell) list \<Rightarrow> world \<Rightarrow> (error + unit) \<times> world" where
  "download_unit_wind_eeg_loop e [] w = (Inr (), w)"
| "download_unit_wind_eeg_loop e ((i, eeg_nr) # rest) w =
     (case get_unit_wind_eeg e eeg_nr w of
        (Inl err, w') \<Rightarrow> (Inl err, w')
      | (Inr unit_wind_eeg, w') \<Rightarrow>
          download_unit_wind_eeg_loop e rest
            (write_to_csv (csv_wind_eeg e) unit_wind_eeg (0 < i) w'))"

definition download_unit_wind_eeg :: "env \<Rightarrow> world \<Rightarrow> (error + unit) \<times> world" where
  "download_unit_wind_eeg e w =
     (case setup_power_unit_wind e w of
        (Inl err, w') \<Rightarrow> (Inl err, w')
      | (Inr unit_wind, w') \<Rightarrow>
          (case column_values unit_wind ''EegMastrNummer'' of
             None \<Rightarrow> (Inl (KeyError ''EegMastrNummer''), w')
           | Some unit_wind_list \<Rightarrow>
               download_unit_wind_eeg_loop e
                 (zip [0..<length unit_wind_list] unit_wind_list) w'))"

section \<open>Notions used in the statements\<close>

text \<open>
  The number of pages \<^verbatim>\<open>range(0, n, limit)\<close> visits for a positive limit: \<open>n / limit\<close>
  rounded up, and none when \<open>n\<close> is not positive.
\<close>

definition page_count :: "int \<Rightarrow> int \<Rightarrow> nat" where
  "page_count n limit = nat ((n + limit - 1) div limit)"

text \<open>
  The frame \<^verbatim>\<open>get_power_unit\<close> returns for the request number \<open>n\<close>, without the
  logging of the request.
\<close>

definition page_frame :: "env \<Rightarrow> nat \<Rightarrow> int \<Rightarrow> int \<Rightarrow> error + dataframe" where
  "page_frame e n start limit =
     (case bind_GetGefilterteListeStromErzeuger e start limit of
        Inl err \<Rightarrow> Inl err
      | Inr einheiten \<Rightarrow> power_unit_frame e (now e n) einheiten)"

text \<open>
  The frame of a page before \<^verbatim>\<open>Standort\<close> is stripped of its double quotes: the rows as
  the registry delivered them, stamped with \<^verbatim>\<open>version\<close> and \<^verbatim>\<open>timestamp\<close>.
\<close>

definition stamped_frame :: "env \<Rightarrow> string \<Rightarrow> (string \<times> cell) list list \<Rightarrow> dataframe" where
  "stamped_frame e ts einheiten =
     set_column ''timestamp'' (Str ts)
       (set_column ''version'' (Str (data_version e))
          ((DataFrame einheiten)\<lparr>index_name := Some ''lid''\<rparr>))"

text \<open>A frame is rectangular when it has a label for each row and a cell for each column.\<close>

definition rectangular :: "dataframe \<Rightarrow> bool" where
  "rectangular df \<longleftrightarrow> length (index df) = length (rows df) \<and>
     list_all (\<lambda>r. length r = length (columns df)) (rows df)"

text \<open>
  The frames \<^verbatim>\<open>get_power_unit_wind\<close> and \<^verbatim>\<open>get_unit_wind_eeg\<close> return for the request
  number \<open>n\<close>, without the logging of the request.
\<close>

definition wind_frame :: "env \<Rightarrow> nat \<Rightarrow> cell \<Rightarrow> error + dataframe" where
  "wind_frame e n k =
     (case bind_GetEinheitWind e k of
        Inl err \<Rightarrow> Inl err
      | Inr s \<Rightarrow> unit_frame e (now e n) s)"

definition eeg_frame :: "env \<Rightarrow> nat \<Rightarrow> cell \<Rightarrow> error + dataframe" where
  "eeg_frame e n k =
     (case bind_GetAnlageEegWind e k of
        Inl err \<Rightarrow> Inl err
      | Inr s \<Rightarrow> unit_frame e (now e n) s)"

text \<open>
  The coercion that the schema of \<^verbatim>\<open>read_power_units\<close> declares for every column: the
  cell as a string, missing when its text is empty or an NA string.
\<close>

definition coerce_str :: "env \<Rightarrow> cell \<Rightarrow> cell" where
  "coerce_str e c = parse_str e (render c)"

text \<open>
  The content of a file that a loop has written afresh from the frames \<open>fr 0, \<dots>, fr (n-1)\<close>:
  the header line of the first frame, then the data lines of all frames in order.
\<close>

definition fresh_file :: "(nat \<Rightarrow> dataframe) \<Rightarrow> nat \<Rightarrow> csv_line list" where
  "fresh_file fr n = csv_header (fr 0) # concat (map (\<lambda>j. csv_rows (fr j)) [0..<n])"

text \<open>
  The frame Stage 2 derives from the frame of all units, \<open>j\<close> being the position of the
  column \<^verbatim>\<open>Einheittyp\<close>.
\<close>

definition wind_subset :: "nat \<Rightarrow> dataframe \<Rightarrow> dataframe" where
  "wind_subset j power_unit =
     (select_rows (\<lambda>r. cell_at r j = Str ''Windeinheit'') (drop_duplicates power_unit))
       \<lparr>index_name := Some ''id''\<rparr>"

section \<open>A mock registry\<close>

text \<open>
  Concrete collaborators for the scenarios: a registry that serves a fixed list of
  units page by page and answers a keyed request with a two-field structure, coded
  \<^verbatim>\<open>OK\<close> for an identifier that one of its units carries and \<^verbatim>\<open>Fehler\<close> for any other;
  the request number is stamped as the time.
\<close>

definition mock_unit :: "string \<Rightarrow> string \<Rightarrow> string \<Rightarrow> cell \<Rightarrow> (string \<times> cell) list" where
  "mock_unit nr typ ort eeg =
     [(''EinheitMastrNummer'', Str nr), (''Einheittyp'', Str typ), (''Standort'', Str ort),
      (''EegMastrNummer'', eeg)]"

definition mock_known :: "(string \<times> cell) list list \<Rightarrow> string \<Rightarrow> cell \<Rightarrow> bool" where
  "mock_known units key k \<longleftrightarrow> k \<noteq> NaN \<and> list_ex (\<lambda>u. map_of u key = Some k) units"

definition mock_answer :: "(string \<times> cell) list list \<Rightarrow> string \<Rightarrow> cell \<Rightarrow> (string \<times> cell) list" where
  "mock_answer units key k =
     (if mock_known units key k then [(''Ergebniscode'', Str ''OK''), (key, k)]
      else [(''Ergebniscode'', Str ''Fehler''), (key, NaN)])"

definition mock_env :: "(string \<times> cell) list list \<Rightarrow> env" where
  "mock_env units =
     \<lparr>data_version = ''v1'',
      now = (\<lambda>n. ''t'' @ str_nat n),
      bind_GetGefilterteListeStromErzeuger = (\<lambda>start limit. Inr (take (nat limit) (drop (nat start) units))),
      bind_GetEinheitWind = (\<lambda>k. Inr (mock_answer units ''EinheitMastrNummer'' k)),
      bind_GetAnlageEegWind = (\<lambda>k. Inr (mock_answer units ''EegMastrNummer'' k)),
      na_values = [''NA'', ''NaN'', ''nan'', ''NULL'', ''null'', ''N/A'', ''n/a'', ''#N/A'', ''#NA''],
      infer_column = map (\<lambda>t. if t = [] then NaN else Str t),
      parse_irregular = (\<lambda>ls. Inl ParserError)\<rparr>"

definition empty_world :: world where
  "empty_world = \<lparr>files = Map.empty, calls = []\<rparr>"

definition name_frame :: dataframe where
  "name_frame = \<lparr>index_name = Some ''lid'', columns = [''Name''], index = [0], rows = [[Str ''A'']]\<rparr>"

definition other_world :: world where
  "other_world = \<lparr>files = [''f.csv'' \<mapsto> [[''x'', ''y'', ''z''], [''1'', ''2'', ''3'']]], calls = []\<rparr>"

definition three_units :: "(string \<times> cell) list list" where
  "three_units =
     [mock_unit ''SEE1'' ''Windeinheit'' (''Hof '' @ [CHR 0x22] @ ''Nord'' @ [CHR 0x22]) (Str ''EEG1''),
      mock_unit ''SEE2'' ''Solareinheit'' ''Dach'' NaN,
      mock_unit ''SEE3'' ''Windeinheit'' ''Feld'' (Str ''EEG1'')]"

definition three_units_page :: "nat \<Rightarrow> dataframe" where
  "three_units_page k =
     (if k = 0
      then \<lparr>index_name = Some ''lid'',
            columns = [''EinheitMastrNummer'', ''Einheittyp'', ''Standort'', ''EegMastrNummer'',
                       ''version'', ''timestamp''],
            index = [0, 1],
            rows = [[Str ''SEE1'', Str ''Windeinheit'', Str ''Hof Nord'', Str ''EEG1'', Str ''v1'', Str ''t0''],
                    [Str ''SEE2'', Str ''Solareinheit'', Str ''Dach'', NaN, Str ''v1'', Str ''t0'']]\<rparr>
      else \<lparr>index_name = Some ''lid'',
            columns = [''EinheitMastrNummer'', ''Einheittyp'', ''Standort'', ''EegMastrNummer'',
                       ''version'', ''timestamp''],
            index = [0],
            rows = [[Str ''SEE3'', Str ''Windeinheit'', Str ''Feld'', Str ''EEG1'', Str ''v1'', Str ''t1'']]\<rparr>)"

text \<open>
  A Stage 2 output with two wind units that carry the same EEG identifier, the frame
  read from it, and the frame of the answer to the request number \<open>j\<close> for that identifier.
\<close>

definition wind_world :: world where
  "wind_world =
     \<lparr>files = [''data/bnetza_mastr_v1_stromerzeuger_wind.csv'' \<mapsto>
         [[''id'', ''lid'', ''EinheitMastrNummer'', ''Einheittyp'', ''Standort'', ''EegMastrNummer'',
           ''version'', ''timestamp''],
          [''0'', ''0'', ''SEE1'', ''Windeinheit'', ''Hof Nord'', ''EEG1'', ''v1'', ''t0''],
          [''2'', ''0'', ''SEE3'', ''Windeinheit'', ''Feld'', ''EEG1'', ''v1'', ''t1'']]],
      calls = []\<rparr>"

definition eeg1_frame :: "nat \<Rightarrow> dataframe" where
  "eeg1_frame j =
     \<lparr>index_name = Some ''lid'',
      columns = [''Ergebniscode'', ''EegMastrNummer'', ''version'', ''timestamp''],
      index = [1],
      rows = [[Str ''OK'', Str ''EEG1'', Str ''v1'', Str (''t'' @ str_nat j)]]\<rparr>"

definition wind_world_frame :: dataframe where
  "wind_world_frame =
     \<lparr>index_name = None,
      columns = [''id'', ''lid'', ''EinheitMastrNummer'', ''Einheittyp'', ''Standort'',
                 ''EegMastrNummer'', ''version'', ''timestamp''],
      index = [0, 1],
      rows = [[Str ''0'', Str ''0'', Str ''SEE1'', Str ''Windeinheit'', Str ''Hof Nord'', Str ''EEG1'',
               Str ''v1'', Str ''t0''],
              [Str ''2'', Str ''0'', Str ''SEE3'', Str ''Windeinheit'', Str ''Feld'', Str ''EEG1'',
               Str ''v1'', Str ''t1'']]\<rparr>"

text \<open>
  A Stage 1 output with a duplicated line, the frame read from it and the wind subset
  derived from it.
\<close>

definition stage1_world :: world where
  "stage1_world =
     \<lparr>files = [''data/bnetza_mastr_v1_stromerzeuger.csv'' \<mapsto>
         [[''lid'', ''EinheitMastrNummer'', ''Einheittyp'', ''Standort'', ''EegMastrNummer'',
           ''version'', ''timestamp''],
          [''0'', ''SEE1'', ''Windeinheit'', ''Hof Nord'', ''EEG1'', ''v1'', ''t0''],
          [''1'', ''SEE2'', ''Solareinheit'', ''Dach'', [], ''v1'', ''t0''],
          [''0'', ''SEE3'', ''Windeinheit'', ''Feld'', ''EEG1'', ''v1'', ''t1''],
          [''0'', ''SEE1'', ''Windeinheit'', ''Hof Nord'', ''EEG1'', ''v1'', ''t0'']]],
      calls = []\<rparr>"

definition stage1_frame :: dataframe where
  "stage1_frame =
     \<lparr>index_name = None,
      columns = [''lid'', ''EinheitMastrNummer'', ''Einheittyp'', ''Standort'', ''EegMastrNummer'',
                 ''version'', ''timestamp''],
      index = [0, 1, 2, 3],
      rows = [[Str ''0'', Str ''SEE1'', Str ''Windeinheit'', Str ''Hof Nord'', Str ''EEG1'', Str ''v1'', Str ''t0''],
              [Str ''1'', Str ''SEE2'', Str ''Solareinheit'', Str ''Dach'', NaN, Str ''v1'', Str ''t0''],
              [Str ''0'', Str ''SEE3'', Str ''Windeinheit'', Str ''Feld'', Str ''EEG1'', Str ''v1'', Str ''t1''],
              [Str ''0'', Str ''SEE1'', Str ''Windeinheit'', Str ''Hof Nord'', Str ''EEG1'', Str ''v1'', Str ''t0'']]\<rparr>"

definition stage2_frame :: dataframe where
  "stage2_frame =
     \<lparr>index_name = Some ''id'',
      columns = [''lid'', ''EinheitMastrNummer'', ''Einheittyp'', ''Standort'', ''EegMastrNummer'',
                 ''version'', ''timestamp''],
      index = [0, 2],
      rows = [[Str ''0'', Str ''SEE1'', Str ''Windeinheit'', Str ''Hof Nord'', Str ''EEG1'', Str ''v1'', Str ''t0''],
              [Str ''0'', Str ''SEE3'', Str ''Windeinheit'', Str ''Feld'', Str ''EEG1'', Str ''v1'', Str ''t1'']]\<rparr>"

text \<open>A frame with a missing cell and a cell whose text is an NA string.\<close>

definition coerce_frame :: dataframe where
  "coerce_frame =
     \<lparr>index_name = Some ''lid'', columns = [''Name'', ''Standort''], index = [0, 1],
      rows = [[Str ''A'', NaN], [Str ''NA'', Str ''Hof'']]\<rparr>"

text \<open>The Stage 2 output together with output files of Stages 3 and 4 from an earlier run.\<close>

definition done_world :: world where
  "done_world =
     \<lparr>files = (files wind_world)
         (''data/bnetza_mastr_v1_windeinheit.csv'' \<mapsto> [[''lid'', ''Ergebniscode''], [''1'', ''OK'']],
          ''data/bnetza_mastr_v1_windeeg.csv'' \<mapsto> [[''lid'', ''Ergebniscode''], [''1'', ''OK'']]),
      calls = []\<rparr>"

text \<open>The frame of the answer to the request number \<open>j\<close> for the wind units of the scenario.\<close>

definition see_frame :: "nat \<Rightarrow> dataframe" where
  "see_frame j =
     \<lparr>index_name = Some ''lid'',
      columns = [''Ergebniscode'', ''EinheitMastrNummer'', ''version'', ''timestamp''],
      index = [1],
      rows = [[Str ''OK'', Str (if j = 0 then ''SEE1'' else ''SEE3''), Str ''v1'',
               Str (''t'' @ str_nat j)]]\<rparr>"

text \<open>
  A registry whose single unit has the location \<^verbatim>\<open>"NA"\<close>, double quotes included, and the
  frame fetched from it.
\<close>

definition na_units :: "(string \<times> cell) list list" where
  "na_units = [mock_unit ''SEE9'' ''Windeinheit'' ([CHR 0x22] @ ''NA'' @ [CHR 0x22]) NaN]"

definition na_frame :: dataframe where
  "na_frame =
     \<lparr>index_name = Some ''lid'',
      columns = [''EinheitMastrNummer'', ''Einheittyp'', ''Standort'', ''EegMastrNummer'',
                 ''version'', ''timestamp''],
      index = [0],
      rows = [[Str ''SEE9'', Str ''Windeinheit'', Str ''NA'', NaN, Str ''v1'', Str ''t0'']]\<rparr>"

section \<open>Properties\<close>

subsection \<open>Evaluation of the fixtures\<close>

lemma str_nat_digit: "n < 10 \<Longrightarrow> str_nat n = [digit_char n]"
  by (simp add: str_nat.simps)

lemma str_nat_0: "str_nat 0 = ''0''"
  by (simp add: str_nat_digit digit_char_def)

lemma csv_name_frame:
  "csv_header name_frame = [''lid'', ''Name'']" "csv_rows name_frame = [[''0'', ''A'']]"
  by (simp_all add: name_frame_def csv_header_def csv_rows_def str_nat_0)

lemma page_count_3_2: "page_count 3 2 = 2"
  by (simp add: page_count_def)

lemma three_units_pages:
  "page_frame (mock_env three_units) 0 0 2
     = Inr \<lparr>index_name = Some ''lid'',
            columns = [''EinheitMastrNummer'', ''Einheittyp'', ''Standort'', ''EegMastrNummer'',
                       ''version'', ''timestamp''],
            index = [0, 1],
            rows = [[Str ''SEE1'', Str ''Windeinheit'', Str ''Hof Nord'', Str ''EEG1'', Str ''v1'', Str ''t0''],
                    [Str ''SEE2'', Str ''Solareinheit'', Str ''Dach'', NaN, Str ''v1'', Str ''t0'']]\<rparr>"
  "page_frame (mock_env three_units) (Suc 0) 2 2
     = Inr \<lparr>index_name = Some ''lid'',
            columns = [''EinheitMastrNummer'', ''Einheittyp'', ''Standort'', ''EegMastrNummer'',
                       ''version'', ''timestamp''],
            index = [0],
            rows = [[Str ''SEE3'', Str ''Windeinheit'', Str ''Feld'', Str ''EEG1'', Str ''v1'', Str ''t1'']]\<rparr>"
  by code_simp+


lemma three_units_lines:
  "csv_header (three_units_page 0)
     = [''lid'', ''EinheitMastrNummer'', ''Einheittyp'', ''Standort'', ''EegMastrNummer'',
        ''version'', ''timestamp'']"
  "csv_rows (three_units_page 0)
     = [[''0'', ''SEE1'', ''Windeinheit'', ''Hof Nord'', ''EEG1'', ''v1'', ''t0''],
        [''1'', ''SEE2'', ''Solareinheit'', ''Dach'', [], ''v1'', ''t0'']]"
  "csv_rows (three_units_page (Suc 0))
     = [[''0'', ''SEE3'', ''Windeinheit'', ''Feld'', ''EEG1'', ''v1'', ''t1'']]"
  by code_simp+

lemma csv_see_mock: "csv_see (mock_env us) = ''data/bnetza_mastr_v1_stromerzeuger.csv''"
  by (simp add: csv_see_def mock_env_def)

lemma csv_mock:
  "csv_see_wind (mock_env us) = ''data/bnetza_mastr_v1_stromerzeuger_wind.csv''"
  "csv_wind (mock_env us) = ''data/bnetza_mastr_v1_windeinheit.csv''"
  "csv_wind_eeg (mock_env us) = ''data/bnetza_mastr_v1_windeeg.csv''"
  by (simp_all add: csv_see_wind_def csv_wind_def csv_wind_eeg_def mock_env_def)

lemma wind_world_eval:
  "read_power_units (mock_env three_units) ''data/bnetza_mastr_v1_stromerzeuger_wind.csv'' wind_world
     = Inr wind_world_frame"
  "column_values wind_world_frame ''EegMastrNummer'' = Some [Str ''EEG1'', Str ''EEG1'']"
  "eeg_frame (mock_env three_units) 0 (Str ''EEG1'') = Inr (eeg1_frame 0)"
  "eeg_frame (mock_env three_units) (Suc 0) (Str ''EEG1'') = Inr (eeg1_frame (Suc 0))"
  "csv_header (eeg1_frame 0) = [''lid'', ''Ergebniscode'', ''EegMastrNummer'', ''version'', ''timestamp'']"
  "csv_rows (eeg1_frame 0) = [[''1'', ''OK'', ''EEG1'', ''v1'', ''t0'']]"
  "csv_rows (eeg1_frame (Suc 0)) = [[''1'', ''OK'', ''EEG1'', ''v1'', ''t1'']]"
  by code_simp+

lemma stage1_world_eval:
  "read_power_units (mock_env three_units) ''data/bnetza_mastr_v1_stromerzeuger.csv'' stage1_world
     = Inr stage1_frame"
  "column_index (columns stage1_frame) ''Einheittyp'' = Some 2"
  "length (index stage1_frame) = length (rows stage1_frame)"
  "fst (setup_power_unit_wind (mock_env three_units) stage1_world) = Inr stage2_frame"
  "csv_header stage2_frame
     = [''id'', ''lid'', ''EinheitMastrNummer'', ''Einheittyp'', ''Standort'', ''EegMastrNummer'',
        ''version'', ''timestamp'']"
  "csv_rows stage2_frame
     = [[''0'', ''0'', ''SEE1'', ''Windeinheit'', ''Hof Nord'', ''EEG1'', ''v1'', ''t0''],
        [''2'', ''0'', ''SEE3'', ''Windeinheit'', ''Feld'', ''EEG1'', ''v1'', ''t1'']]"
  by code_simp+

lemma coerce_frame_eval:
  "rectangular coerce_frame"
  "distinct (csv_header coerce_frame)"
  "[] \<notin> set (csv_header coerce_frame)"
  "set (csv_header coerce_frame) \<subseteq> set power_unit_dtype"
  "map (\<lambda>(i, r). parse_str (mock_env []) (str_nat i) # map (coerce_str (mock_env [])) r)
       (zip (index coerce_frame) (rows coerce_frame))
     = [[Str ''0'', Str ''A'', NaN], [Str ''1'', NaN, Str ''Hof'']]"
  "(case index_name coerce_frame of None \<Rightarrow> [] | Some n \<Rightarrow> n) # columns coerce_frame
     = [''lid'', ''Name'', ''Standort'']"
  "[0..<length (rows coerce_frame)] = [0, 1]"
  by code_simp+

lemma rerun_eval:
  "read_power_units (mock_env three_units) ''data/bnetza_mastr_v1_stromerzeuger_wind.csv'' done_world
     = Inr wind_world_frame"
  "column_values wind_world_frame ''EinheitMastrNummer'' = Some [Str ''SEE1'', Str ''SEE3'']"
  "wind_frame (mock_env three_units) 0 (Str ''SEE1'') = Inr (see_frame 0)"
  "wind_frame (mock_env three_units) (Suc 0) (Str ''SEE3'') = Inr (see_frame (Suc 0))"
  "fresh_file three_units_page 2
     = [[''lid'', ''EinheitMastrNummer'', ''Einheittyp'', ''Standort'', ''EegMastrNummer'',
         ''version'', ''timestamp''],
        [''0'', ''SEE1'', ''Windeinheit'', ''Hof Nord'', ''EEG1'', ''v1'', ''t0''],
        [''1'', ''SEE2'', ''Solareinheit'', ''Dach'', [], ''v1'', ''t0''],
        [''0'', ''SEE3'', ''Windeinheit'', ''Feld'', ''EEG1'', ''v1'', ''t1'']]"
  "fresh_file see_frame (Suc (Suc 0))
     = [[''lid'', ''Ergebniscode'', ''EinheitMastrNummer'', ''version'', ''timestamp''],
        [''1'', ''OK'', ''SEE1'', ''v1'', ''t0''],
        [''1'', ''OK'', ''SEE3'', ''v1'', ''t1'']]"
  "fresh_file eeg1_frame (Suc (Suc 0))
     = [[''lid'', ''Ergebniscode'', ''EegMastrNummer'', ''version'', ''timestamp''],
        [''1'', ''OK'', ''EEG1'', ''v1'', ''t0''],
        [''1'', ''OK'', ''EEG1'', ''v1'', ''t1'']]"
  "wind_subset 2 stage1_frame = stage2_frame"
  by code_simp+


lemma three_units_trip:
  "distinct (''lid'' # columns (stamped_frame (mock_env three_units) ''t0'' (take 2 three_units)))"
  "[] \<notin> set (columns (stamped_frame (mock_env three_units) ''t0'' (take 2 three_units)))"
  "parse_str (mock_env three_units) ''Hof Nord'' = Str ''Hof Nord''"
  by code_simp+

subsection \<open>The tabular store\<close>

lemma files_write_to_csv:
  "files (write_to_csv p df a w) =
     (files w)(p \<mapsto> (if a then (case files w p of None \<Rightarrow> [] | Some old \<Rightarrow> old) @ csv_rows df
                       else csv_header df # csv_rows df))"
  by (simp add: write_to_csv_def)

lemma calls_write_to_csv: "calls (write_to_csv p df a w) = calls w"
  by (simp add: write_to_csv_def)

text \<open>
  Claim C1. Whatever the path, the frame and the file's present content:
  \<^verbatim>\<open>write_to_csv\<close> without \<^verbatim>\<open>append\<close> sets the file to the header line followed by the
  data lines; with \<^verbatim>\<open>append\<close> it puts the data lines, and no header line, after the
  present content, which it neither reads nor compares with the frame; no other file
  changes and no request is made.
\<close>

theorem write_to_csv_modes:
  "files (write_to_csv p df False w) p = Some (csv_header df # csv_rows df) \<and>
   files (write_to_csv p df True w) p
     = Some ((case files w p of None \<Rightarrow> [] | Some old \<Rightarrow> old) @ csv_rows df) \<and>
   (\<forall>q. q \<noteq> p \<longrightarrow> files (write_to_csv p df a w) q = files w q) \<and>
   calls (write_to_csv p df a w) = calls w"
  by (simp add: files_write_to_csv calls_write_to_csv)

theorem write_to_csv_modes_witness:
  "files (write_to_csv ''f.csv'' name_frame False other_world) ''f.csv''
     = Some [[''lid'', ''Name''], [''0'', ''A'']] \<and>
   files (write_to_csv ''f.csv'' name_frame True other_world) ''f.csv''
     = Some [[''x'', ''y'', ''z''], [''1'', ''2'', ''3''], [''0'', ''A'']]"
  using write_to_csv_modes [of "''f.csv''" name_frame other_world]
  by (simp add: csv_name_frame other_world_def)

text \<open>
  Claim C10. Appending to a path that names no file does not fail: the file is created
  and holds the data lines only, without a header line.
\<close>

theorem write_to_csv_append_missing:
  "files w p = None \<Longrightarrow> files (write_to_csv p df True w) p = Some (csv_rows df)"
  by (simp add: files_write_to_csv)

theorem write_to_csv_append_missing_witness:
  "files empty_world ''f.csv'' = None \<and>
   files (write_to_csv ''f.csv'' name_frame True empty_world) ''f.csv'' = Some [[''0'', ''A'']]"
proof -
  have missing: "files empty_world ''f.csv'' = None"
    by (simp add: empty_world_def)
  from write_to_csv_append_missing [OF missing, of name_frame] missing
  show ?thesis by (simp add: csv_name_frame)
qed

subsection \<open>Stage 1: the bulk download\<close>

lemma get_power_unit_page:
  "get_power_unit e s l w =
     (page_frame e (length (calls w)) s l, w\<lparr>calls := calls w @ [GetGefilterteListeStromErzeuger s l]\<rparr>)"
  by (simp add: get_power_unit_def page_frame_def split: sum.splits)

lemma ceil_div_less:
  fixes k N L :: int
  assumes L: "0 < L"
  shows "k < (N + L - 1) div L \<longleftrightarrow> k * L < N"
proof -
  define q where "q = (N + L - 1) div L"
  define r where "r = (N + L - 1) mod L"
  define a where "a = k * L"
  define b where "b = q * L"
  have split: "N + L - 1 = b + r"
    by (simp add: q_def r_def b_def)
  have r: "0 \<le> r" "r < L"
    using L by (simp_all add: r_def)
  have kq: "(k + 1) * L = a + L" "(q + 1) * L = b + L"
    by (simp_all add: a_def b_def algebra_simps)
  have "k < q \<longleftrightarrow> a < N"
  proof
    assume "k < q"
    then have "k + 1 \<le> q" by simp
    then have "(k + 1) * L \<le> q * L"
      using L by (simp only: mult_right_mono)
    then have "a + L \<le> b"
      by (simp only: kq b_def)
    with split r show "a < N" by linarith
  next
    assume "a < N"
    with split r have "a + L < b + L" by linarith
    then have "(k + 1) * L < (q + 1) * L"
      by (simp only: kq)
    then have "k + 1 < q + 1"
      using L by (simp only: mult_less_cancel_right_pos)
    then show "k < q" by simp
  qed
  then show ?thesis by (simp only: q_def a_def)
qed

lemma page_count_less: "0 < L \<Longrightarrow> k < page_count N L \<longleftrightarrow> int k * L < N"
  by (simp add: page_count_def zless_nat_eq_int_zless ceil_div_less)

lemma py_range_pages:
  "0 < L \<Longrightarrow> py_range 0 N L = Inr (map (\<lambda>k. int k * L) [0..<page_count N L])"
  by (simp add: py_range_def page_count_def)

text \<open>The loop over offsets that all append.\<close>

lemma download_power_unit_loop_append:
  assumes "\<forall>s \<in> set offs. 0 < s"
    and "\<forall>k < length offs. page_frame e (length (calls w) + k) (offs ! k) L = Inr (pg k)"
    and "files w (csv_see e) = Some old"
  shows "fst (download_power_unit_loop e L offs w) = Inr () \<and>
         calls (snd (download_power_unit_loop e L offs w))
           = calls w @ map (\<lambda>s. GetGefilterteListeStromErzeuger s L) offs \<and>
         files (snd (download_power_unit_loop e L offs w))
           = (files w)(csv_see e \<mapsto> old @ concat (map (\<lambda>k. csv_rows (pg k)) [0..<length offs]))"
  using assms
proof (induction offs arbitrary: w pg old)
  case Nil
  then show ?case by (simp add: map_upd_triv)
next
  case (Cons s offs)
  let ?w1 = "write_to_csv (csv_see e) (pg 0) True
               (w\<lparr>calls := calls w @ [GetGefilterteListeStromErzeuger s L]\<rparr>)"
  from Cons.prems have first: "page_frame e (length (calls w)) s L = Inr (pg 0)" and pos: "0 < s"
    by auto
  from Cons.prems have rest:
    "\<forall>k < length offs. page_frame e (length (calls ?w1) + k) (offs ! k) L = Inr (pg (Suc k))"
    by (auto simp: calls_write_to_csv)
  have old1: "files ?w1 (csv_see e) = Some (old @ csv_rows (pg 0))"
    using Cons.prems by (simp add: files_write_to_csv)
  have pos': "\<forall>s \<in> set offs. 0 < s" using Cons.prems by simp
  have step: "download_power_unit_loop e L (s # offs) w = download_power_unit_loop e L offs ?w1"
    by (simp add: get_power_unit_page first pos)
  have shift: "concat (map (\<lambda>k. csv_rows (pg k)) [0..<length (s # offs)])
                 = csv_rows (pg 0) @ concat (map (\<lambda>k. csv_rows (pg (Suc k))) [0..<length offs])"
    by (simp add: upt_conv_Cons map_Suc_upt [symmetric] comp_def del: upt_Suc)
  have w1: "calls ?w1 = calls w @ [GetGefilterteListeStromErzeuger s L]"
    "files ?w1 = (files w)(csv_see e \<mapsto> old @ csv_rows (pg 0))"
    using Cons.prems by (simp_all add: write_to_csv_def)
  show ?case
    unfolding step shift using Cons.IH [OF pos' rest old1]
    by (simp add: w1 fun_eq_iff)
qed


lemma download_power_unit_run:
  assumes L: "0 < L"
    and pages: "\<forall>k < page_count N L. page_frame e (length (calls w) + k) (int k * L) L = Inr (pg k)"
  shows "py_range 0 N L = Inr (map (\<lambda>k. int k * L) [0..<page_count N L]) \<and>
         (\<forall>k. k < page_count N L \<longleftrightarrow> int k * L < N) \<and>
         fst (download_power_unit e N L w) = Inr () \<and>
         calls (snd (download_power_unit e N L w))
           = calls w @ map (\<lambda>k. GetGefilterteListeStromErzeuger (int k * L) L) [0..<page_count N L] \<and>
         files (snd (download_power_unit e N L w))
           = (if page_count N L = 0 then files w
              else (files w)(csv_see e \<mapsto>
                     csv_header (pg 0) # concat (map (\<lambda>k. csv_rows (pg k)) [0..<page_count N L])))"
proof (cases "page_count N L")
  case 0
  with L show ?thesis
    by (simp add: download_power_unit_def py_range_pages page_count_less [symmetric])
next
  case (Suc m)
  let ?offs = "map (\<lambda>k. int (Suc k) * L) [0..<m]"
  let ?w1 = "write_to_csv (csv_see e) (pg 0) False
               (w\<lparr>calls := calls w @ [GetGefilterteListeStromErzeuger 0 L]\<rparr>)"
  have range: "py_range 0 N L = Inr (0 # ?offs)"
    using L Suc
    by (simp add: py_range_pages upt_conv_Cons map_Suc_upt [symmetric] comp_def del: upt_Suc)
  from pages Suc have first: "page_frame e (length (calls w)) 0 L = Inr (pg 0)"
    by (auto dest: spec [of _ 0])
  have w1: "calls ?w1 = calls w @ [GetGefilterteListeStromErzeuger 0 L]"
    "files ?w1 = (files w)(csv_see e \<mapsto> csv_header (pg 0) # csv_rows (pg 0))"
    by (simp_all add: write_to_csv_def)
  have step: "download_power_unit e N L w = download_power_unit_loop e L ?offs ?w1"
    by (simp add: download_power_unit_def range get_power_unit_page first)
  have pos: "\<forall>s \<in> set ?offs. 0 < s"
    using L by simp
  have rest: "\<forall>k < length ?offs.
                page_frame e (length (calls ?w1) + k) (?offs ! k) L = Inr ((pg \<circ> Suc) k)"
  proof (intro allI impI)
    fix k
    assume k: "k < length ?offs"
    then have "Suc k < page_count N L"
      using Suc by simp
    with pages have "page_frame e (length (calls w) + Suc k) (int (Suc k) * L) L = Inr (pg (Suc k))"
      by blast
    with k show "page_frame e (length (calls ?w1) + k) (?offs ! k) L = Inr ((pg \<circ> Suc) k)"
      by (simp add: w1 del: of_nat_Suc)
  qed
  have old: "files ?w1 (csv_see e) = Some (csv_header (pg 0) # csv_rows (pg 0))"
    by (simp add: w1)
  have shift: "concat (map (\<lambda>k. csv_rows (pg k)) [0..<Suc m])
                 = csv_rows (pg 0) @ concat (map (\<lambda>k. csv_rows ((pg \<circ> Suc) k)) [0..<length ?offs])"
    by (simp add: upt_conv_Cons map_Suc_upt [symmetric] comp_def del: upt_Suc)
  have reqs: "map (\<lambda>k. GetGefilterteListeStromErzeuger (int k * L) L) [0..<Suc m]
                = GetGefilterteListeStromErzeuger 0 L # map (\<lambda>s. GetGefilterteListeStromErzeuger s L) ?offs"
    by (simp add: upt_conv_Cons map_Suc_upt [symmetric] comp_def del: upt_Suc of_nat_Suc)
  note loop = download_power_unit_loop_append [OF pos rest old]
  have c1: "py_range 0 N L = Inr (map (\<lambda>k. int k * L) [0..<page_count N L])"
    using L by (rule py_range_pages)
  have c2: "\<forall>k. k < page_count N L \<longleftrightarrow> int k * L < N"
    using L by (simp add: page_count_less)
  have c3: "fst (download_power_unit e N L w) = Inr ()"
    using loop by (simp only: step)
  have c4: "calls (snd (download_power_unit e N L w))
              = calls w @ map (\<lambda>k. GetGefilterteListeStromErzeuger (int k * L) L) [0..<page_count N L]"
    using loop by (simp only: step Suc reqs w1 append_assoc append_Cons append_Nil)
  have "files (snd (download_power_unit e N L w))
          = (files w)(csv_see e \<mapsto>
               csv_header (pg 0) # concat (map (\<lambda>k. csv_rows (pg k)) [0..<page_count N L]))"
    using loop by (simp only: step Suc shift w1 fun_upd_upd append_Cons)
  then have c5: "files (snd (download_power_unit e N L w))
          = (if page_count N L = 0 then files w
             else (files w)(csv_see e \<mapsto>
               csv_header (pg 0) # concat (map (\<lambda>k. csv_rows (pg k)) [0..<page_count N L])))"
    using Suc by simp
  from c1 c2 c3 c4 c5 show ?thesis by blast
qed

text \<open>
  Claim C2. For a positive page limit \<open>L\<close> and any expected total \<open>N\<close>, the offsets of
  the bulk download are \<open>0, L, 2L, \<dots>\<close>, exactly the multiples of \<open>L\<close> below \<open>N\<close>. When
  the fetch of each of these pages yields a frame, the download ends normally, has
  sent one request per offset in this order, and (when there is a page at all) the file
  holds the header line of the first page followed by the data lines of all pages in
  order, whatever it held before: the first page is written with the header, every
  later page is appended without one. In the scenario of the witness (3 units, limit 2)
  the file holds one header line and three data lines.
\<close>

theorem download_power_unit_pages:
  assumes L: "0 < L"
    and pages: "\<forall>k < page_count N L. page_frame e (length (calls w) + k) (int k * L) L = Inr (pg k)"
  shows "py_range 0 N L = Inr (map (\<lambda>k. int k * L) [0..<page_count N L]) \<and>
         (\<forall>k. k < page_count N L \<longleftrightarrow> int k * L < N) \<and>
         fst (download_power_unit e N L w) = Inr () \<and>
         calls (snd (download_power_unit e N L w))
           = calls w @ map (\<lambda>k. GetGefilterteListeStromErzeuger (int k * L) L) [0..<page_count N L] \<and>
         files (snd (download_power_unit e N L w))
           = (if page_count N L = 0 then files w
              else (files w)(csv_see e \<mapsto>
                     csv_header (pg 0) # concat (map (\<lambda>k. csv_rows (pg k)) [0..<page_count N L])))"
  using L pages by (rule download_power_unit_run)

theorem download_power_unit_pages_witness:
  "fst (download_power_unit (mock_env three_units) 3 2 empty_world) = Inr () \<and>
   calls (snd (download_power_unit (mock_env three_units) 3 2 empty_world))
     = [GetGefilterteListeStromErzeuger 0 2, GetGefilterteListeStromErzeuger 2 2] \<and>
   files (snd (download_power_unit (mock_env three_units) 3 2 empty_world))
       ''data/bnetza_mastr_v1_stromerzeuger.csv''
     = Some [[''lid'', ''EinheitMastrNummer'', ''Einheittyp'', ''Standort'', ''EegMastrNummer'',
              ''version'', ''timestamp''],
             [''0'', ''SEE1'', ''Windeinheit'', ''Hof Nord'', ''EEG1'', ''v1'', ''t0''],
             [''1'', ''SEE2'', ''Solareinheit'', ''Dach'', [], ''v1'', ''t0''],
             [''0'', ''SEE3'', ''Windeinheit'', ''Feld'', ''EEG1'', ''v1'', ''t1'']]"
proof -
  have limit: "(0::int) < 2" by simp
  have pages: "\<forall>k < page_count 3 2.
      page_frame (mock_env three_units) (length (calls empty_world) + k) (int k * 2) 2
        = Inr (three_units_page k)"
    by (simp add: page_count_3_2 less_2_cases_iff empty_world_def three_units_pages three_units_page_def)
  have upt: "[0..<2] = [0, Suc 0]"
    by (simp add: upt_conv_Cons)
  from download_power_unit_pages [OF limit pages]
  show ?thesis
    by (simp add: page_count_3_2 upt three_units_lines csv_see_mock empty_world_def)
qed

subsection \<open>The record fetcher: sanitization and empty pages\<close>

lemma power_unit_frame_stamped:
  "power_unit_frame e ts einheiten =
     (if ''Standort'' \<in> set (columns (stamped_frame e ts einheiten))
      then Inr (map_column ''Standort'' str_replace_quote (stamped_frame e ts einheiten))
      else Inl (KeyError ''Standort''))"
  by (simp add: power_unit_frame_def stamped_frame_def Let_def)

lemma rectangular_DataFrame: "rectangular (DataFrame ds)"
  by (simp add: rectangular_def DataFrame_def Let_def list_all_iff)

lemma rectangular_index_name: "rectangular (df\<lparr>index_name := n\<rparr>) = rectangular df"
  by (simp add: rectangular_def)

lemma rectangular_set_column: "rectangular df \<Longrightarrow> rectangular (set_column c v df)"
  by (auto simp: rectangular_def set_column_def list_all_iff)

lemma rectangular_stamped: "rectangular (stamped_frame e ts einheiten)"
  by (simp add: stamped_frame_def rectangular_set_column rectangular_DataFrame rectangular_index_name)

lemma empty_page: "power_unit_frame e ts [] = Inl (KeyError ''Standort'')"
  by (simp add: power_unit_frame_def DataFrame_def ordered_keys_def set_column_def Let_def)

lemma render_str_replace_quote:
  "render (str_replace_quote x) = filter (\<lambda>ch. ch \<noteq> CHR 0x22) (render x)"
  by (cases x) simp_all

lemma map_column_cell:
  assumes "i < length (rows df)" "length (rows df ! i) = length (columns df)" "j < length (columns df)"
  shows "rows (map_column c f df) ! i ! j
           = (if columns df ! j = c then f (rows df ! i ! j) else rows df ! i ! j)"
  using assms by (simp add: map_column_def)

lemma map_column_frame:
  "columns (map_column c f df) = columns df" "index (map_column c f df) = index df"
  "index_name (map_column c f df) = index_name df"
  "length (rows (map_column c f df)) = length (rows df)"
  by (simp_all add: map_column_def)

lemma map_column_row_length:
  "i < length (rows df) \<Longrightarrow> length (rows df ! i) = length (columns df) \<Longrightarrow>
   length (rows (map_column c f df) ! i) = length (columns df)"
  by (simp add: map_column_def)

lemma rectangular_row: "rectangular df \<Longrightarrow> i < length (rows df) \<Longrightarrow> length (rows df ! i) = length (columns df)"
  by (simp add: rectangular_def list_all_length)

lemma csv_rows_nth:
  "i < length (index df) \<Longrightarrow> i < length (rows df) \<Longrightarrow>
   csv_rows df ! i = str_nat (index df ! i) # map render (rows df ! i)"
  by (simp add: csv_rows_def)

lemma length_csv_rows: "length (csv_rows df) = min (length (index df)) (length (rows df))"
  by (simp add: csv_rows_def)

lemma three_units_raw:
  "bind_GetGefilterteListeStromErzeuger (mock_env three_units) 0 2 = Inr (take 2 three_units)"
  "now (mock_env three_units) (length (calls empty_world)) = ''t0''"
  "''Standort'' \<in> set (columns (stamped_frame (mock_env three_units) ''t0'' (take 2 three_units)))"
  "length (rows (stamped_frame (mock_env three_units) ''t0'' (take 2 three_units))) = 2"
  "columns (stamped_frame (mock_env three_units) ''t0'' (take 2 three_units))
     = [''EinheitMastrNummer'', ''Einheittyp'', ''Standort'', ''EegMastrNummer'', ''version'', ''timestamp'']"
  "rows (stamped_frame (mock_env three_units) ''t0'' (take 2 three_units)) ! 0 ! 2
     = Str (''Hof '' @ [CHR 0x22] @ ''Nord'' @ [CHR 0x22])"
  "rows (stamped_frame (mock_env three_units) ''t0'' (take 2 three_units)) ! 0 ! 0 = Str ''SEE1''"
  by code_simp+

text \<open>
  Claim C9 (where the code departs from it). A page without units gives a frame without
  columns, \<^verbatim>\<open>power_unit['Standort']\<close> raises \<^verbatim>\<open>KeyError\<close>, and the exception ends the
  download after the request was sent. With 3 units upstream, an expected total of 5
  and the limit 2, the third page is empty and the download fails.
\<close>

theorem get_power_unit_empty_page:
  "bind_GetGefilterteListeStromErzeuger e start limit = Inr [] \<Longrightarrow>
   get_power_unit e start limit w =
     (Inl (KeyError ''Standort''),
      w\<lparr>calls := calls w @ [GetGefilterteListeStromErzeuger start limit]\<rparr>)"
  by (simp add: get_power_unit_page page_frame_def empty_page)

theorem get_power_unit_empty_page_witness:
  "bind_GetGefilterteListeStromErzeuger (mock_env three_units) 4 2 = Inr [] \<and>
   fst (get_power_unit (mock_env three_units) 4 2 empty_world) = Inl (KeyError ''Standort'') \<and>
   fst (download_power_unit (mock_env three_units) 5 2 empty_world) = Inl (KeyError ''Standort'') \<and>
   calls (snd (download_power_unit (mock_env three_units) 5 2 empty_world))
     = [GetGefilterteListeStromErzeuger 0 2, GetGefilterteListeStromErzeuger 2 2,
        GetGefilterteListeStromErzeuger 4 2]"
proof -
  have page: "bind_GetGefilterteListeStromErzeuger (mock_env three_units) 4 2 = Inr []"
    by code_simp
  have run: "fst (download_power_unit (mock_env three_units) 5 2 empty_world)
               = Inl (KeyError ''Standort'')"
    "calls (snd (download_power_unit (mock_env three_units) 5 2 empty_world))
     = [GetGefilterteListeStromErzeuger 0 2, GetGefilterteListeStromErzeuger 2 2,
        GetGefilterteListeStromErzeuger 4 2]"
    by code_simp+
  from get_power_unit_empty_page [OF page, of empty_world] page run
  show ?thesis by simp
qed

subsection \<open>The record fetcher: keyed requests\<close>

lemma get_power_unit_wind_frame:
  "get_power_unit_wind e k w = (wind_frame e (length (calls w)) k, w\<lparr>calls := calls w @ [GetEinheitWind k]\<rparr>)"
  by (simp add: get_power_unit_wind_def wind_frame_def split: sum.splits)

lemma get_unit_wind_eeg_frame:
  "get_unit_wind_eeg e k w = (eeg_frame e (length (calls w)) k, w\<lparr>calls := calls w @ [GetAnlageEegWind k]\<rparr>)"
  by (simp add: get_unit_wind_eeg_def eeg_frame_def split: sum.splits)

lemma unit_frame_empty: "unit_frame e ts [] = Inl IndexError"
  by (simp add: unit_frame_def transpose_items_def)

lemma unit_frame_row:
  assumes "s \<noteq> []"
  shows "\<exists>f. unit_frame e ts s = Inr f \<and> index_name f = Some ''lid'' \<and> index f = [1] \<and>
           length (rows f) = 1 \<and> set (map fst s) \<subseteq> set (columns f) \<and>
           (''version'' \<notin> set (map fst s) \<and> ''timestamp'' \<notin> set (map fst s) \<longrightarrow>
              columns f = map fst s @ [''version'', ''timestamp''] \<and>
              rows f = [map snd s @ [Str (data_version e), Str ts]])"
  using assms
  by (cases s) (auto simp: unit_frame_def transpose_items_def set_column_def)

lemma unit_frame_lines:
  "unit_frame e ts s = Inr f \<Longrightarrow> length (csv_rows f) = 1"
  by (cases s) (auto simp: unit_frame_def transpose_items_def set_column_def csv_rows_def split: if_splits)

text \<open>
  Claim C7, as amended. For each of the two keyed fetches the answer of the registry
  alone decides the result; the fetch does not ask whether the identifier exists. A
  non-empty key-value structure, whatever its result code, is transposed into a frame
  of exactly one row with the index label \<^verbatim>\<open>1\<close>: every key is a column, and when no key
  is \<^verbatim>\<open>version\<close> or \<^verbatim>\<open>timestamp\<close> the columns are the keys in order followed by these
  two, the row the values in order followed by the two stamps. Only an empty structure
  makes the fetch fail, with \<^verbatim>\<open>IndexError\<close>.
\<close>

theorem keyed_fetch_transposes:
  assumes which: "fetch = get_power_unit_wind \<and> api = bind_GetEinheitWind \<or>
                  fetch = get_unit_wind_eeg \<and> api = bind_GetAnlageEegWind"
    and answer: "api e k = Inr s"
  shows "(s = [] \<longrightarrow> fst (fetch e k w) = Inl IndexError) \<and>
         (s \<noteq> [] \<longrightarrow>
            (\<exists>f. fst (fetch e k w) = Inr f \<and> index f = [1] \<and> length (rows f) = 1 \<and>
                 length (csv_rows f) = 1 \<and> set (map fst s) \<subseteq> set (columns f) \<and>
                 (''version'' \<notin> set (map fst s) \<and> ''timestamp'' \<notin> set (map fst s) \<longrightarrow>
                    columns f = map fst s @ [''version'', ''timestamp''] \<and>
                    rows f = [map snd s @ [Str (data_version e), Str (now e (length (calls w)))]])))"
proof -
  have res: "fst (fetch e k w) = unit_frame e (now e (length (calls w))) s"
    using which answer
    by (auto simp: get_power_unit_wind_frame get_unit_wind_eeg_frame wind_frame_def eeg_frame_def)
  show ?thesis
  proof (cases "s = []")
    case True
    then show ?thesis by (simp add: res unit_frame_empty)
  next
    case False
    from unit_frame_row [OF False, of e "now e (length (calls w))"]
    obtain f where f: "unit_frame e (now e (length (calls w))) s = Inr f"
      and shape: "index f = [1]" "length (rows f) = 1" "set (map fst s) \<subseteq> set (columns f)"
        "''version'' \<notin> set (map fst s) \<and> ''timestamp'' \<notin> set (map fst s) \<longrightarrow>
              columns f = map fst s @ [''version'', ''timestamp''] \<and>
              rows f = [map snd s @ [Str (data_version e), Str (now e (length (calls w)))]]"
      by blast
    have "length (csv_rows f) = 1"
      using f by (rule unit_frame_lines)
    with False f shape show ?thesis
      by (simp add: res)
  qed
qed

theorem keyed_fetch_transposes_witness:
  "bind_GetAnlageEegWind (mock_env three_units) (Str ''EEG1'')
     = Inr [(''Ergebniscode'', Str ''OK''), (''EegMastrNummer'', Str ''EEG1'')] \<and>
   (\<exists>f. fst (get_unit_wind_eeg (mock_env three_units) (Str ''EEG1'') empty_world) = Inr f \<and>
        index f = [1] \<and>
        columns f = [''Ergebniscode'', ''EegMastrNummer'', ''version'', ''timestamp''] \<and>
        rows f = [[Str ''OK'', Str ''EEG1'', Str ''v1'', Str ''t0'']])"
proof -
  have answer: "bind_GetAnlageEegWind (mock_env three_units) (Str ''EEG1'')
     = Inr [(''Ergebniscode'', Str ''OK''), (''EegMastrNummer'', Str ''EEG1'')]"
    by code_simp
  have stamp: "data_version (mock_env three_units) = ''v1''"
    "now (mock_env three_units) (length (calls empty_world)) = ''t0''"
    by code_simp+
  from keyed_fetch_transposes [of get_unit_wind_eeg bind_GetAnlageEegWind, OF _ answer, of empty_world]
  show ?thesis
    by (simp add: answer stamp) blast
qed

text \<open>
  Claim C7 as stated fails: for an identifier that the mock registry does not hold,
  the registry answers with an error-coded structure and the fetch returns it as a row
  instead of failing with \<^verbatim>\<open>LookupError\<close>.
\<close>

theorem keyed_fetch_unknown_counterexample:
  "mock_known three_units ''EegMastrNummer'' (Str ''EEG404'') = False \<and>
   fst (get_unit_wind_eeg (mock_env three_units) (Str ''EEG404'') empty_world)
     = Inr \<lparr>index_name = Some ''lid'',
            columns = [''Ergebniscode'', ''EegMastrNummer'', ''version'', ''timestamp''],
            index = [1],
            rows = [[Str ''Fehler'', NaN, Str ''v1'', Str ''t0'']]\<rparr>"
  by code_simp

subsection \<open>Stage 4: the EEG download\<close>

lemma download_unit_wind_eeg_loop_append:
  assumes "\<forall>x \<in> set items. 0 < fst x"
    and "\<forall>j < length items. eeg_frame e (length (calls w) + j) (snd (items ! j)) = Inr (fr j)"
    and "files w (csv_wind_eeg e) = Some old"
  shows "fst (download_unit_wind_eeg_loop e items w) = Inr () \<and>
         calls (snd (download_unit_wind_eeg_loop e items w))
           = calls w @ map (\<lambda>x. GetAnlageEegWind (snd x)) items \<and>
         files (snd (download_unit_wind_eeg_loop e items w))
           = (files w)(csv_wind_eeg e \<mapsto> old @ concat (map (\<lambda>j. csv_rows (fr j)) [0..<length items]))"
  using assms
proof (induction items arbitrary: w fr old)
  case Nil
  then show ?case by (simp add: map_upd_triv)
next
  case (Cons x items)
  obtain i k where x: "x = (i, k)" by (cases x)
  let ?w1 = "write_to_csv (csv_wind_eeg e) (fr 0) True (w\<lparr>calls := calls w @ [GetAnlageEegWind k]\<rparr>)"
  from Cons.prems x have first: "eeg_frame e (length (calls w)) k = Inr (fr 0)" and pos: "0 < i"
    by auto
  have w1: "calls ?w1 = calls w @ [GetAnlageEegWind k]"
    "files ?w1 = (files w)(csv_wind_eeg e \<mapsto> old @ csv_rows (fr 0))"
    using Cons.prems by (simp_all add: write_to_csv_def)
  have rest: "\<forall>j < length items.
      eeg_frame e (length (calls ?w1) + j) (snd (items ! j)) = Inr (fr (Suc j))"
  proof (intro allI impI)
    fix j
    assume "j < length items"
    then have "Suc j < length (x # items)" by simp
    with Cons.prems(2) have "eeg_frame e (length (calls w) + Suc j) (snd ((x # items) ! Suc j)) = Inr (fr (Suc j))"
      by blast
    then show "eeg_frame e (length (calls ?w1) + j) (snd (items ! j)) = Inr (fr (Suc j))"
      by (simp add: w1)
  qed
  have old1: "files ?w1 (csv_wind_eeg e) = Some (old @ csv_rows (fr 0))"
    by (simp add: w1)
  have pos': "\<forall>x \<in> set items. 0 < fst x" using Cons.prems by simp
  have step: "download_unit_wind_eeg_loop e (x # items) w = download_unit_wind_eeg_loop e items ?w1"
    by (simp add: x get_unit_wind_eeg_frame first pos)
  have shift: "concat (map (\<lambda>j. csv_rows (fr j)) [0..<length (x # items)])
                 = csv_rows (fr 0) @ concat (map (\<lambda>j. csv_rows (fr (Suc j))) [0..<length items])"
    by (simp add: upt_conv_Cons map_Suc_upt [symmetric] comp_def del: upt_Suc)
  show ?case
    unfolding step shift using Cons.IH [OF pos' rest old1]
    by (simp add: w1 x fun_eq_iff)
qed

lemma zip_upt_Cons:
  "zip [0..<length (k # ks)] (k # ks) = (0, k) # map (\<lambda>x. (Suc (fst x), snd x)) (zip [0..<length ks] ks)"
proof -
  have "[0..<length (k # ks)] = 0 # map Suc [0..<length ks]"
    by (simp add: upt_conv_Cons map_Suc_upt del: upt_Suc)
  then show ?thesis
    by (simp add: zip_map1 case_prod_beta)
qed


lemma length_concat_singletons:
  "\<forall>x \<in> set xs. length (f x) = 1 \<Longrightarrow> length (concat (map f xs)) = length xs"
  by (induction xs) simp_all

lemma map_snd_enumerate: "map (\<lambda>x. g (snd x)) (zip [0..<length ks] ks) = map g ks"
proof -
  have "map (\<lambda>x. g (snd x)) (zip [0..<length ks] ks) = map g (map snd (zip [0..<length ks] ks))"
    by (simp only: map_map comp_def)
  also have "map snd (zip [0..<length ks] ks) = ks"
    by (simp add: map_snd_zip)
  finally show ?thesis .
qed

lemma eeg_frame_lines: "eeg_frame e n k = Inr f \<Longrightarrow> length (csv_rows f) = 1"
  by (cases "bind_GetAnlageEegWind e k") (simp_all add: eeg_frame_def unit_frame_lines)

lemma setup_power_unit_wind_present:
  "files w (csv_see_wind e) = Some c \<Longrightarrow>
   setup_power_unit_wind e w = (read_power_units e (csv_see_wind e) w, w)"
  by (simp add: setup_power_unit_wind_def split: sum.splits)

lemma download_unit_wind_eeg_run:
  assumes stage2: "setup_power_unit_wind e w = (Inr unit_wind, w1)"
    and ids: "column_values unit_wind ''EegMastrNummer'' = Some ids"
    and frames: "\<forall>j < length ids. eeg_frame e (length (calls w1) + j) (ids ! j) = Inr (fr j)"
  shows "fst (download_unit_wind_eeg e w) = Inr () \<and>
         calls (snd (download_unit_wind_eeg e w)) = calls w1 @ map GetAnlageEegWind ids \<and>
         files (snd (download_unit_wind_eeg e w))
           = (if ids = [] then files w1
              else (files w1)(csv_wind_eeg e \<mapsto>
                     csv_header (fr 0) # concat (map (\<lambda>j. csv_rows (fr j)) [0..<length ids]))) \<and>
         length (concat (map (\<lambda>j. csv_rows (fr j)) [0..<length ids])) = length ids"
proof -
  have lines: "length (concat (map (\<lambda>j. csv_rows (fr j)) [0..<length ids])) = length ids"
  proof -
    have "\<forall>j < length ids. length (csv_rows (fr j)) = 1"
      using frames by (blast intro: eeg_frame_lines)
    then have "length (concat (map (\<lambda>j. csv_rows (fr j)) [0..<length ids])) = length [0..<length ids]"
      by (intro length_concat_singletons) simp
    then show ?thesis by simp
  qed
  have run: "download_unit_wind_eeg e w
               = download_unit_wind_eeg_loop e (zip [0..<length ids] ids) w1"
    by (simp add: download_unit_wind_eeg_def stage2 ids)
  show ?thesis
  proof (cases ids)
    case Nil
    then show ?thesis by (simp add: run)
  next
    case (Cons k ks)
    let ?items = "map (\<lambda>x. (Suc (fst x), snd x)) (zip [0..<length ks] ks)"
    let ?w1 = "write_to_csv (csv_wind_eeg e) (fr 0) False (w1\<lparr>calls := calls w1 @ [GetAnlageEegWind k]\<rparr>)"
    from frames Cons have first: "eeg_frame e (length (calls w1)) k = Inr (fr 0)"
      by (auto dest: spec [of _ 0])
    have w1: "calls ?w1 = calls w1 @ [GetAnlageEegWind k]"
      "files ?w1 = (files w1)(csv_wind_eeg e \<mapsto> csv_header (fr 0) # csv_rows (fr 0))"
      by (simp_all add: write_to_csv_def)
    have items: "zip [0..<length ids] ids = (0, k) # ?items"
      unfolding Cons by (rule zip_upt_Cons)
    have step: "download_unit_wind_eeg e w = download_unit_wind_eeg_loop e ?items ?w1"
      by (simp add: run items get_unit_wind_eeg_frame first)
    have pos: "\<forall>x \<in> set ?items. 0 < fst x"
      by simp
    have len: "length ?items = length ks"
      by simp
    have rest: "\<forall>j < length ?items.
        eeg_frame e (length (calls ?w1) + j) (snd (?items ! j)) = Inr ((fr \<circ> Suc) j)"
    proof (intro allI impI)
      fix j
      assume j: "j < length ?items"
      then have "Suc j < length ids" by (simp add: Cons)
      with frames have "eeg_frame e (length (calls w1) + Suc j) (ids ! Suc j) = Inr (fr (Suc j))"
        by blast
      with j show "eeg_frame e (length (calls ?w1) + j) (snd (?items ! j)) = Inr ((fr \<circ> Suc) j)"
        by (simp add: w1 Cons)
    qed
    have old: "files ?w1 (csv_wind_eeg e) = Some (csv_header (fr 0) # csv_rows (fr 0))"
      by (simp add: w1)
    note loop = download_unit_wind_eeg_loop_append [OF pos rest old]
    have shift: "concat (map (\<lambda>j. csv_rows (fr j)) [0..<length ids])
                   = csv_rows (fr 0) @ concat (map (\<lambda>j. csv_rows ((fr \<circ> Suc) j)) [0..<length ?items])"
      by (simp add: Cons upt_conv_Cons map_Suc_upt [symmetric] comp_def del: upt_Suc)
    have reqs: "map (\<lambda>x. GetAnlageEegWind (snd x)) ?items = map GetAnlageEegWind ks"
      by (simp add: comp_def map_snd_enumerate)
    have c1: "fst (download_unit_wind_eeg e w) = Inr ()"
      using loop by (simp only: step)
    have c2: "calls (snd (download_unit_wind_eeg e w)) = calls w1 @ map GetAnlageEegWind ids"
      using loop by (simp only: step reqs w1 Cons list.map append_assoc append_Cons append_Nil)
    have "files (snd (download_unit_wind_eeg e w))
            = (files w1)(csv_wind_eeg e \<mapsto>
                 csv_header (fr 0) # concat (map (\<lambda>j. csv_rows (fr j)) [0..<length ids]))"
      using loop by (simp only: step shift w1 fun_upd_upd append_Cons)
    with Cons c1 c2 lines show ?thesis
      by simp
  qed
qed

text \<open>
  Claim C8. When Stage 2 yields a frame whose \<^verbatim>\<open>EegMastrNummer\<close> column is the list
  \<open>ids\<close> and every fetch yields a frame, Stage 4 ends normally, has sent one request per
  entry of the list, in list order and duplicates included, and has written one data
  line per entry under the header of the first answer. In the scenario of the witness
  the list is \<^verbatim>\<open>["EEG1", "EEG1"]\<close>: two requests, two data lines.
\<close>

theorem download_unit_wind_eeg_rows:
  assumes stage2: "setup_power_unit_wind e w = (Inr unit_wind, w1)"
    and ids: "column_values unit_wind ''EegMastrNummer'' = Some ids"
    and frames: "\<forall>j < length ids. eeg_frame e (length (calls w1) + j) (ids ! j) = Inr (fr j)"
  shows "fst (download_unit_wind_eeg e w) = Inr () \<and>
         calls (snd (download_unit_wind_eeg e w)) = calls w1 @ map GetAnlageEegWind ids \<and>
         files (snd (download_unit_wind_eeg e w))
           = (if ids = [] then files w1
              else (files w1)(csv_wind_eeg e \<mapsto>
                     csv_header (fr 0) # concat (map (\<lambda>j. csv_rows (fr j)) [0..<length ids]))) \<and>
         length (concat (map (\<lambda>j. csv_rows (fr j)) [0..<length ids])) = length ids"
  using stage2 ids frames by (rule download_unit_wind_eeg_run)

theorem download_unit_wind_eeg_rows_witness:
  "fst (download_unit_wind_eeg (mock_env three_units) wind_world) = Inr () \<and>
   calls (snd (download_unit_wind_eeg (mock_env three_units) wind_world))
     = [GetAnlageEegWind (Str ''EEG1''), GetAnlageEegWind (Str ''EEG1'')] \<and>
   files (snd (download_unit_wind_eeg (mock_env three_units) wind_world))
       ''data/bnetza_mastr_v1_windeeg.csv''
     = Some [[''lid'', ''Ergebniscode'', ''EegMastrNummer'', ''version'', ''timestamp''],
             [''1'', ''OK'', ''EEG1'', ''v1'', ''t0''],
             [''1'', ''OK'', ''EEG1'', ''v1'', ''t1'']]"
proof -
  have present: "files wind_world (csv_see_wind (mock_env three_units))
      = Some [[''id'', ''lid'', ''EinheitMastrNummer'', ''Einheittyp'', ''Standort'', ''EegMastrNummer'',
           ''version'', ''timestamp''],
          [''0'', ''0'', ''SEE1'', ''Windeinheit'', ''Hof Nord'', ''EEG1'', ''v1'', ''t0''],
          [''2'', ''0'', ''SEE3'', ''Windeinheit'', ''Feld'', ''EEG1'', ''v1'', ''t1'']]"
    by (simp add: csv_mock wind_world_def)
  have stage2: "setup_power_unit_wind (mock_env three_units) wind_world = (Inr wind_world_frame, wind_world)"
    by (simp add: setup_power_unit_wind_present [OF present] csv_mock wind_world_eval)
  have no_calls: "calls wind_world = []"
    by (simp add: wind_world_def)
  have frames: "\<forall>j < length [Str ''EEG1'', Str ''EEG1''].
      eeg_frame (mock_env three_units) (length (calls wind_world) + j) ([Str ''EEG1'', Str ''EEG1''] ! j)
        = Inr (eeg1_frame j)"
    by (simp add: no_calls less_Suc_eq wind_world_eval)
  have upt: "[0..<2] = [0, Suc 0]"
    by (simp add: upt_conv_Cons)
  from download_unit_wind_eeg_rows [OF stage2 wind_world_eval(2) frames]
  show ?thesis
    by (simp add: no_calls upt wind_world_eval csv_mock)
qed

subsection \<open>Stage 2: the wind subset\<close>


lemma drop_duplicates_rows_set:
  "snd ` set (drop_duplicates_rows seen xs) = snd ` set xs - set seen"
  by (induction seen xs rule: drop_duplicates_rows.induct) auto

lemma drop_duplicates_rows_distinct:
  "distinct (map snd (drop_duplicates_rows seen xs))"
proof (induction seen xs rule: drop_duplicates_rows.induct)
  case (1 seen)
  show ?case by simp
next
  case (2 seen i r xs)
  have "r \<notin> snd ` set (drop_duplicates_rows (r # seen) xs)"
    by (simp add: drop_duplicates_rows_set)
  with 2 show ?case by simp
qed

lemma drop_duplicates_frame:
  "columns (drop_duplicates df) = columns df"
  "distinct (rows (drop_duplicates df))"
  "length (index (drop_duplicates df)) = length (rows (drop_duplicates df))"
  by (simp_all add: drop_duplicates_def Let_def drop_duplicates_rows_distinct)





lemma read_power_units_file:
  "files w2 p = files w p \<Longrightarrow> read_power_units e p w2 = read_power_units e p w"
  by (simp add: read_power_units_def read_csv_def)

lemma setup_power_unit_wind_absent:
  assumes "files w (csv_see_wind e) = None"
    and "read_power_units e (csv_see e) w = Inr power_unit"
    and "column_index (columns power_unit) ''Einheittyp'' = Some j"
  shows "setup_power_unit_wind e w =
           (Inr ((select_rows (\<lambda>r. cell_at r j = Str ''Windeinheit'') (drop_duplicates power_unit))
                   \<lparr>index_name := Some ''id''\<rparr>),
            write_to_csv (csv_see_wind e)
              ((select_rows (\<lambda>r. cell_at r j = Str ''Windeinheit'') (drop_duplicates power_unit))
                   \<lparr>index_name := Some ''id''\<rparr>) False w)"
  using assms by (simp add: setup_power_unit_wind_def Let_def drop_duplicates_frame)


subsection \<open>Writing a frame and reading it back\<close>

lemma str_nat_not_empty: "str_nat n \<noteq> []"
  by (subst str_nat.simps) simp

lemma columns_by_position:
  assumes "set h \<subseteq> set dtype"
  shows "map (\<lambda>(j, c). let texts = map (\<lambda>r. r ! j) body
                       in if c \<in> set dtype then map f texts else g texts) (zip [0..<length h] h)
           = map (\<lambda>j. map (\<lambda>r. f (r ! j)) body) [0..<length h]"
proof -
  have "\<forall>x \<in> set (zip [0..<length h] h). snd x \<in> set dtype"
    using assms by (auto dest: set_zip_rightD)
  then have "map (\<lambda>(j, c). let texts = map (\<lambda>r. r ! j) body
                       in if c \<in> set dtype then map f texts else g texts) (zip [0..<length h] h)
           = map (\<lambda>x. map (\<lambda>r. f (r ! fst x)) body) (zip [0..<length h] h)"
    by (auto simp: Let_def)
  also have "\<dots> = map (\<lambda>j. map (\<lambda>r. f (r ! j)) body) (map fst (zip [0..<length h] h))"
    by (simp only: map_map comp_def)
  also have "map fst (zip [0..<length h] h) = [0..<length h]"
    by (simp add: map_fst_zip)
  finally show ?thesis .
qed

lemma rows_by_position:
  assumes "\<forall>r \<in> set body. length r = n"
  shows "map (\<lambda>i. map (\<lambda>col. cell_at col i) (map (\<lambda>j. map (\<lambda>r. f (r ! j)) body) [0..<n]))
           [0..<length body]
         = map (map f) body"
proof (rule nth_equalityI)
  show "length (map (\<lambda>i. map (\<lambda>col. cell_at col i) (map (\<lambda>j. map (\<lambda>r. f (r ! j)) body) [0..<n]))
           [0..<length body]) = length (map (map f) body)"
    by simp
next
  fix i
  assume "i < length (map (\<lambda>i. map (\<lambda>col. cell_at col i) (map (\<lambda>j. map (\<lambda>r. f (r ! j)) body) [0..<n]))
           [0..<length body])"
  then have i: "i < length body" by simp
  with assms have len: "length (body ! i) = n" by simp
  have "map (\<lambda>col. cell_at col i) (map (\<lambda>j. map (\<lambda>r. f (r ! j)) body) [0..<n])
          = map (\<lambda>j. f (body ! i ! j)) [0..<n]"
    using i by (simp add: cell_at_def)
  also have "\<dots> = map f (body ! i)"
    using len by (simp add: list_eq_iff_nth_eq)
  finally show "map (\<lambda>i. map (\<lambda>col. cell_at col i) (map (\<lambda>j. map (\<lambda>r. f (r ! j)) body) [0..<n]))
           [0..<length body] ! i = map (map f) body ! i"
    using i by simp
qed

lemma read_csv_plain:
  assumes "files w p = Some (h # body)" "plain_table (h # body)" "set h \<subseteq> set dtype"
  shows "read_csv e dtype p w
           = Inr \<lparr>index_name = None, columns = h, index = [0..<length body],
                  rows = map (map (parse_str e)) body\<rparr>"
proof -
  have len: "\<forall>r \<in> set body. length r = length h"
    using assms(2) by (simp add: plain_table_def list_all_iff)
  show ?thesis
    using assms
    by (simp add: read_csv_def columns_by_position [OF assms(3)] rows_by_position [OF len, unfolded map_map])
qed

lemma plain_table_csv:
  assumes "rectangular df" "distinct (csv_header df)" "[] \<notin> set (csv_header df)"
  shows "plain_table (csv_header df # csv_rows df)"
proof -
  have "\<forall>r \<in> set (rows df). length r = length (columns df)"
    using assms(1) by (simp add: rectangular_def list_all_iff)
  then have "\<forall>l \<in> set (csv_rows df). length l = length (csv_header df) \<and> l \<noteq> [[]]"
    by (auto simp: csv_rows_def csv_header_def str_nat_not_empty dest: set_zip_rightD)
  with assms(2,3) show ?thesis
    by (simp add: plain_table_def list_all_iff csv_header_def)
qed

lemma csv_rows_coerced:
  "map (map (parse_str e)) (csv_rows df)
     = map (\<lambda>(i, r). parse_str e (str_nat i) # map (coerce_str e) r) (zip (index df) (rows df))"
  by (simp add: csv_rows_def coerce_str_def comp_def case_prod_beta)

text \<open>
  Claim C4, as amended. For a rectangular frame whose index name and column names are
  distinct, non-empty and declared in the schema, writing it without \<^verbatim>\<open>append\<close> and
  reading the file with \<^verbatim>\<open>read_power_units\<close> gives one row per row of the frame, in
  order: the columns of the frame in their order, preceded by one added column that
  carries the index under the index name, and in every cell the written value under
  the declared coercion to a string. No column of the frame is dropped or moved.
\<close>

theorem write_then_read_power_units:
  assumes rect: "rectangular df"
    and names: "distinct (csv_header df)" "[] \<notin> set (csv_header df)"
    and schema: "set (csv_header df) \<subseteq> set power_unit_dtype"
  shows "read_power_units e p (write_to_csv p df False w)
           = Inr \<lparr>index_name = None,
                  columns = (case index_name df of None \<Rightarrow> [] | Some n \<Rightarrow> n) # columns df,
                  index = [0..<length (rows df)],
                  rows = map (\<lambda>(i, r). parse_str e (str_nat i) # map (coerce_str e) r)
                           (zip (index df) (rows df))\<rparr>"
proof -
  have written: "files (write_to_csv p df False w) p = Some (csv_header df # csv_rows df)"
    by (simp add: files_write_to_csv)
  have plain: "plain_table (csv_header df # csv_rows df)"
    using rect names by (rule plain_table_csv)
  have count: "length (csv_rows df) = length (rows df)"
    using rect by (simp add: length_csv_rows rectangular_def)
  show ?thesis
    unfolding read_power_units_def read_csv_plain [OF written plain schema]
    by (simp add: count csv_rows_coerced) (simp add: csv_header_def)
qed


theorem write_then_read_power_units_witness:
  "rectangular coerce_frame \<and> distinct (csv_header coerce_frame) \<and>
   set (csv_header coerce_frame) \<subseteq> set power_unit_dtype \<and>
   read_power_units (mock_env []) ''f.csv'' (write_to_csv ''f.csv'' coerce_frame False other_world)
     = Inr \<lparr>index_name = None, columns = [''lid'', ''Name'', ''Standort''], index = [0, 1],
            rows = [[Str ''0'', Str ''A'', NaN], [Str ''1'', NaN, Str ''Hof'']]\<rparr>"
  using write_then_read_power_units [OF coerce_frame_eval(1-4), of "mock_env []" "''f.csv''" other_world]
  by (simp only: coerce_frame_eval simp_thms)

text \<open>
  Claim C4 as stated fails where it says that no column is added: the frame with the
  single column \<^verbatim>\<open>Name\<close> reads back with the two columns \<^verbatim>\<open>lid\<close> and \<^verbatim>\<open>Name\<close>, since
  \<^verbatim>\<open>to_csv\<close> writes the index and \<^verbatim>\<open>read_csv\<close> with \<^verbatim>\<open>index_col=False\<close> reads it as data.
\<close>

theorem write_then_read_counterexample:
  "columns name_frame = [''Name''] \<and>
   read_power_units (mock_env []) ''f.csv'' (write_to_csv ''f.csv'' name_frame False empty_world)
     = Inr \<lparr>index_name = None, columns = [''lid'', ''Name''], index = [0],
            rows = [[Str ''0'', Str ''A'']]\<rparr>"
  by code_simp

subsection \<open>Checkpoints\<close>

lemma download_power_unit_loop_calls:
  "calls w2 = calls w \<Longrightarrow>
   fst (download_power_unit_loop e L offs w2) = fst (download_power_unit_loop e L offs w) \<and>
   calls (snd (download_power_unit_loop e L offs w2)) = calls (snd (download_power_unit_loop e L offs w))"
proof (induction offs arbitrary: w w2)
  case Nil
  then show ?case by simp
next
  case (Cons s offs)
  show ?case
  proof (cases "page_frame e (length (calls w)) s L")
    case (Inl err)
    with Cons.prems show ?thesis
      by (simp add: get_power_unit_page)
  next
    case (Inr f)
    let ?next = "\<lambda>w. write_to_csv (csv_see e) f (0 < s) (w\<lparr>calls := calls w @ [GetGefilterteListeStromErzeuger s L]\<rparr>)"
    have "calls (?next w2) = calls (?next w)"
      using Cons.prems by (simp add: calls_write_to_csv)
    from Cons.IH [OF this] Inr Cons.prems show ?thesis
      by (simp add: get_power_unit_page)
  qed
qed

lemma download_unit_wind_loop_calls:
  "calls w2 = calls w \<Longrightarrow>
   fst (download_unit_wind_loop e s0 items w2) = fst (download_unit_wind_loop e s0 items w) \<and>
   calls (snd (download_unit_wind_loop e s0 items w2)) = calls (snd (download_unit_wind_loop e s0 items w))"
proof (induction items arbitrary: w w2)
  case Nil
  then show ?case by simp
next
  case (Cons x items)
  obtain i k where x: "x = (i, k)" by (cases x)
  show ?case
  proof (cases "wind_frame e (length (calls w)) k")
    case (Inl err)
    with Cons.prems show ?thesis
      by (simp add: x get_power_unit_wind_frame)
  next
    case (Inr f)
    let ?next = "\<lambda>w. write_to_csv (csv_wind e) f (s0 < i) (w\<lparr>calls := calls w @ [GetEinheitWind k]\<rparr>)"
    have "calls (?next w2) = calls (?next w)"
      using Cons.prems by (simp add: calls_write_to_csv)
    from Cons.IH [OF this] Inr Cons.prems show ?thesis
      by (simp add: x get_power_unit_wind_frame)
  qed
qed

lemma download_unit_wind_eeg_loop_calls:
  "calls w2 = calls w \<Longrightarrow>
   fst (download_unit_wind_eeg_loop e items w2) = fst (download_unit_wind_eeg_loop e items w) \<and>
   calls (snd (download_unit_wind_eeg_loop e items w2)) = calls (snd (download_unit_wind_eeg_loop e items w))"
proof (induction items arbitrary: w w2)
  case Nil
  then show ?case by simp
next
  case (Cons x items)
  obtain i k where x: "x = (i, k)" by (cases x)
  show ?case
  proof (cases "eeg_frame e (length (calls w)) k")
    case (Inl err)
    with Cons.prems show ?thesis
      by (simp add: x get_unit_wind_eeg_frame)
  next
    case (Inr f)
    let ?next = "\<lambda>w. write_to_csv (csv_wind_eeg e) f (0 < i) (w\<lparr>calls := calls w @ [GetAnlageEegWind k]\<rparr>)"
    have "calls (?next w2) = calls (?next w)"
      using Cons.prems by (simp add: calls_write_to_csv)
    from Cons.IH [OF this] Inr Cons.prems show ?thesis
      by (simp add: x get_unit_wind_eeg_frame)
  qed
qed

lemma setup_power_unit_wind_agree:
  assumes "calls w2 = calls w"
    and "files w2 (csv_see e) = files w (csv_see e)"
    and "files w2 (csv_see_wind e) = files w (csv_see_wind e)"
  shows "fst (setup_power_unit_wind e w2) = fst (setup_power_unit_wind e w) \<and>
         calls (snd (setup_power_unit_wind e w2)) = calls (snd (setup_power_unit_wind e w))"
proof -
  have see: "read_power_units e (csv_see e) w2 = read_power_units e (csv_see e) w"
    using assms(2) by (rule read_power_units_file)
  have wind: "read_power_units e (csv_see_wind e) w2 = read_power_units e (csv_see_wind e) w"
    using assms(3) by (rule read_power_units_file)
  show ?thesis
    using assms(1,3)
    by (simp add: setup_power_unit_wind_def see wind Let_def calls_write_to_csv
             split: sum.splits option.splits)
qed


lemma download_power_unit_loop_extends:
  "\<exists>cs. calls (snd (download_power_unit_loop e L offs w)) = calls w @ cs"
proof (induction offs arbitrary: w)
  case Nil
  show ?case by simp
next
  case (Cons s offs)
  show ?case
  proof (cases "page_frame e (length (calls w)) s L")
    case (Inl err)
    then show ?thesis by (simp add: get_power_unit_page)
  next
    case (Inr f)
    let ?w1 = "write_to_csv (csv_see e) f (0 < s) (w\<lparr>calls := calls w @ [GetGefilterteListeStromErzeuger s L]\<rparr>)"
    from Cons.IH [of ?w1] obtain cs where
      "calls (snd (download_power_unit_loop e L offs ?w1)) = calls ?w1 @ cs" ..
    with Inr show ?thesis
      by (simp add: get_power_unit_page calls_write_to_csv)
  qed
qed

lemma download_power_unit_requests:
  assumes "0 < L" "0 < N"
  shows "calls (snd (download_power_unit e N L w)) \<noteq> calls w"
proof -
  have "0 < page_count N L"
    using assms page_count_less [of L 0 N] by simp
  then obtain m where m: "page_count N L = Suc m"
    by (cases "page_count N L") simp_all
  have range: "py_range 0 N L = Inr (0 # map (\<lambda>k. int (Suc k) * L) [0..<m])"
    using assms(1) m
    by (simp add: py_range_pages upt_conv_Cons map_Suc_upt [symmetric] comp_def del: upt_Suc)
  show ?thesis
  proof (cases "page_frame e (length (calls w)) 0 L")
    case (Inl err)
    then show ?thesis
      by (simp add: download_power_unit_def range get_power_unit_page)
  next
    case (Inr f)
    let ?w1 = "write_to_csv (csv_see e) f False (w\<lparr>calls := calls w @ [GetGefilterteListeStromErzeuger 0 L]\<rparr>)"
    from download_power_unit_loop_extends [of e L "map (\<lambda>k. int (Suc k) * L) [0..<m]" ?w1]
    obtain cs where "calls (snd (download_power_unit_loop e L (map (\<lambda>k. int (Suc k) * L) [0..<m]) ?w1))
                       = calls ?w1 @ cs" ..
    with Inr show ?thesis
      by (simp add: download_power_unit_def range get_power_unit_page calls_write_to_csv)
  qed
qed

lemma download_power_unit_calls:
  assumes same: "calls w3 = calls w"
  shows "fst (download_power_unit e N L w3) = fst (download_power_unit e N L w) \<and>
         calls (snd (download_power_unit e N L w3)) = calls (snd (download_power_unit e N L w))"
proof (cases "py_range 0 N L")
  case (Inl err)
  then show ?thesis
    using same by (simp add: download_power_unit_def)
next
  case (Inr offs)
  from download_power_unit_loop_calls [OF same, of e L offs] Inr
  show ?thesis
    by (simp add: download_power_unit_def)
qed

lemma download_unit_wind_agree:
  assumes "calls w2 = calls w"
    and "files w2 (csv_see e) = files w (csv_see e)"
    and "files w2 (csv_see_wind e) = files w (csv_see_wind e)"
  shows "fst (download_unit_wind e w2) = fst (download_unit_wind e w) \<and>
         calls (snd (download_unit_wind e w2)) = calls (snd (download_unit_wind e w))"
proof -
  obtain r v where run: "setup_power_unit_wind e w = (r, v)"
    by (cases "setup_power_unit_wind e w")
  obtain r2 v2 where run2: "setup_power_unit_wind e w2 = (r2, v2)"
    by (cases "setup_power_unit_wind e w2")
  from setup_power_unit_wind_agree [OF assms] have same: "r2 = r" "calls v2 = calls v"
    by (simp_all add: run run2)
  show ?thesis
  proof (cases r)
    case (Inl err)
    then show ?thesis
      using same by (simp add: download_unit_wind_def run run2)
  next
    case (Inr unit_wind)
    show ?thesis
    proof (cases "column_values unit_wind ''EinheitMastrNummer''")
      case None
      then show ?thesis
        using same Inr by (simp add: download_unit_wind_def run run2)
    next
      case (Some ids)
      from download_unit_wind_loop_calls [OF same(2), of e 0 "zip [0..<length ids] ids"]
      show ?thesis
        using same Inr Some by (simp add: download_unit_wind_def run run2)
    qed
  qed
qed

lemma download_unit_wind_eeg_agree:
  assumes "calls w2 = calls w"
    and "files w2 (csv_see e) = files w (csv_see e)"
    and "files w2 (csv_see_wind e) = files w (csv_see_wind e)"
  shows "fst (download_unit_wind_eeg e w2) = fst (download_unit_wind_eeg e w) \<and>
         calls (snd (download_unit_wind_eeg e w2)) = calls (snd (download_unit_wind_eeg e w))"
proof -
  obtain r v where run: "setup_power_unit_wind e w = (r, v)"
    by (cases "setup_power_unit_wind e w")
  obtain r2 v2 where run2: "setup_power_unit_wind e w2 = (r2, v2)"
    by (cases "setup_power_unit_wind e w2")
  from setup_power_unit_wind_agree [OF assms] have same: "r2 = r" "calls v2 = calls v"
    by (simp_all add: run run2)
  show ?thesis
  proof (cases r)
    case (Inl err)
    then show ?thesis
      using same by (simp add: download_unit_wind_eeg_def run run2)
  next
    case (Inr unit_wind)
    show ?thesis
    proof (cases "column_values unit_wind ''EegMastrNummer''")
      case None
      then show ?thesis
        using same Inr by (simp add: download_unit_wind_eeg_def run run2)
    next
      case (Some ids)
      from download_unit_wind_eeg_loop_calls [OF same(2), of e "zip [0..<length ids] ids"]
      show ?thesis
        using same Inr Some by (simp add: download_unit_wind_eeg_def run run2)
    qed
  qed
qed

lemma download_unit_wind_loop_append:
  assumes "\<forall>x \<in> set items. s0 < fst x"
    and "\<forall>j < length items. wind_frame e (length (calls w) + j) (snd (items ! j)) = Inr (fr j)"
    and "files w (csv_wind e) = Some old"
  shows "fst (download_unit_wind_loop e s0 items w) = Inr () \<and>
         calls (snd (download_unit_wind_loop e s0 items w))
           = calls w @ map (\<lambda>x. GetEinheitWind (snd x)) items \<and>
         files (snd (download_unit_wind_loop e s0 items w))
           = (files w)(csv_wind e \<mapsto> old @ concat (map (\<lambda>j. csv_rows (fr j)) [0..<length items]))"
  using assms
proof (induction items arbitrary: w fr old)
  case Nil
  then show ?case by (simp add: map_upd_triv)
next
  case (Cons x items)
  obtain i k where x: "x = (i, k)" by (cases x)
  let ?w1 = "write_to_csv (csv_wind e) (fr 0) True (w\<lparr>calls := calls w @ [GetEinheitWind k]\<rparr>)"
  from Cons.prems x have first: "wind_frame e (length (calls w)) k = Inr (fr 0)" and pos: "s0 < i"
    by auto
  have w1: "calls ?w1 = calls w @ [GetEinheitWind k]"
    "files ?w1 = (files w)(csv_wind e \<mapsto> old @ csv_rows (fr 0))"
    using Cons.prems by (simp_all add: write_to_csv_def)
  have rest: "\<forall>j < length items.
      wind_frame e (length (calls ?w1) + j) (snd (items ! j)) = Inr (fr (Suc j))"
  proof (intro allI impI)
    fix j
    assume "j < length items"
    then have "Suc j < length (x # items)" by simp
    with Cons.prems(2) have "wind_frame e (length (calls w) + Suc j) (snd ((x # items) ! Suc j)) = Inr (fr (Suc j))"
      by blast
    then show "wind_frame e (length (calls ?w1) + j) (snd (items ! j)) = Inr (fr (Suc j))"
      by (simp add: w1)
  qed
  have old1: "files ?w1 (csv_wind e) = Some (old @ csv_rows (fr 0))"
    by (simp add: w1)
  have pos': "\<forall>x \<in> set items. s0 < fst x" using Cons.prems by simp
  have step: "download_unit_wind_loop e s0 (x # items) w = download_unit_wind_loop e s0 items ?w1"
    by (simp add: x get_power_unit_wind_frame first pos)
  have shift: "concat (map (\<lambda>j. csv_rows (fr j)) [0..<length (x # items)])
                 = csv_rows (fr 0) @ concat (map (\<lambda>j. csv_rows (fr (Suc j))) [0..<length items])"
    by (simp add: upt_conv_Cons map_Suc_upt [symmetric] comp_def del: upt_Suc)
  show ?case
    unfolding step shift using Cons.IH [OF pos' rest old1]
    by (simp add: w1 x fun_eq_iff)
qed

lemma download_unit_wind_run:
  assumes stage2: "setup_power_unit_wind e w = (Inr unit_wind, w1)"
    and ids: "column_values unit_wind ''EinheitMastrNummer'' = Some ids"
    and frames: "\<forall>j < length ids. wind_frame e (length (calls w1) + j) (ids ! j) = Inr (fr j)"
  shows "fst (download_unit_wind e w) = Inr () \<and>
         calls (snd (download_unit_wind e w)) = calls w1 @ map GetEinheitWind ids \<and>
         files (snd (download_unit_wind e w))
           = (if ids = [] then files w1
              else (files w1)(csv_wind e \<mapsto>
                     csv_header (fr 0) # concat (map (\<lambda>j. csv_rows (fr j)) [0..<length ids])))"
proof -
  have run: "download_unit_wind e w
               = download_unit_wind_loop e 0 (zip [0..<length ids] ids) w1"
    by (simp add: download_unit_wind_def stage2 ids)
  show ?thesis
  proof (cases ids)
    case Nil
    then show ?thesis by (simp add: run)
  next
    case (Cons k ks)
    let ?items = "map (\<lambda>x. (Suc (fst x), snd x)) (zip [0..<length ks] ks)"
    let ?w1 = "write_to_csv (csv_wind e) (fr 0) False (w1\<lparr>calls := calls w1 @ [GetEinheitWind k]\<rparr>)"
    from frames Cons have first: "wind_frame e (length (calls w1)) k = Inr (fr 0)"
      by (auto dest: spec [of _ 0])
    have w1: "calls ?w1 = calls w1 @ [GetEinheitWind k]"
      "files ?w1 = (files w1)(csv_wind e \<mapsto> csv_header (fr 0) # csv_rows (fr 0))"
      by (simp_all add: write_to_csv_def)
    have items: "zip [0..<length ids] ids = (0, k) # ?items"
      unfolding Cons by (rule zip_upt_Cons)
    have step: "download_unit_wind e w = download_unit_wind_loop e 0 ?items ?w1"
      by (simp add: run items get_power_unit_wind_frame first)
    have pos: "\<forall>x \<in> set ?items. 0 < fst x"
      by simp
    have rest: "\<forall>j < length ?items.
        wind_frame e (length (calls ?w1) + j) (snd (?items ! j)) = Inr ((fr \<circ> Suc) j)"
    proof (intro allI impI)
      fix j
      assume j: "j < length ?items"
      then have "Suc j < length ids" by (simp add: Cons)
      with frames have "wind_frame e (length (calls w1) + Suc j) (ids ! Suc j) = Inr (fr (Suc j))"
        by blast
      with j show "wind_frame e (length (calls ?w1) + j) (snd (?items ! j)) = Inr ((fr \<circ> Suc) j)"
        by (simp add: w1 Cons)
    qed
    have old: "files ?w1 (csv_wind e) = Some (csv_header (fr 0) # csv_rows (fr 0))"
      by (simp add: w1)
    note loop = download_unit_wind_loop_append [OF pos rest old]
    have shift: "concat (map (\<lambda>j. csv_rows (fr j)) [0..<length ids])
                   = csv_rows (fr 0) @ concat (map (\<lambda>j. csv_rows ((fr \<circ> Suc) j)) [0..<length ?items])"
      by (simp add: Cons upt_conv_Cons map_Suc_upt [symmetric] comp_def del: upt_Suc)
    have reqs: "map (\<lambda>x. GetEinheitWind (snd x)) ?items = map GetEinheitWind ks"
      by (simp add: comp_def map_snd_enumerate)
    have c1: "fst (download_unit_wind e w) = Inr ()"
      using loop by (simp only: step)
    have c2: "calls (snd (download_unit_wind e w)) = calls w1 @ map GetEinheitWind ids"
      using loop by (simp only: step reqs w1 Cons list.map append_assoc append_Cons append_Nil)
    have "files (snd (download_unit_wind e w))
            = (files w1)(csv_wind e \<mapsto>
                 csv_header (fr 0) # concat (map (\<lambda>j. csv_rows (fr j)) [0..<length ids]))"
      using loop by (simp only: step shift w1 fun_upd_upd append_Cons)
    with Cons c1 c2 show ?thesis
      by simp
  qed
qed

lemma download_unit_wind_loop_extends:
  "\<exists>cs. calls (snd (download_unit_wind_loop e s0 items w)) = calls w @ cs"
proof (induction items arbitrary: w)
  case Nil
  show ?case by simp
next
  case (Cons x items)
  obtain i k where x: "x = (i, k)" by (cases x)
  show ?case
  proof (cases "wind_frame e (length (calls w)) k")
    case (Inl err)
    then show ?thesis by (simp add: x get_power_unit_wind_frame)
  next
    case (Inr f)
    let ?w1 = "write_to_csv (csv_wind e) f (s0 < i) (w\<lparr>calls := calls w @ [GetEinheitWind k]\<rparr>)"
    from Cons.IH [of ?w1] obtain cs where
      "calls (snd (download_unit_wind_loop e s0 items ?w1)) = calls ?w1 @ cs" ..
    with Inr show ?thesis
      by (simp add: x get_power_unit_wind_frame calls_write_to_csv)
  qed
qed

lemma download_unit_wind_eeg_loop_extends:
  "\<exists>cs. calls (snd (download_unit_wind_eeg_loop e items w)) = calls w @ cs"
proof (induction items arbitrary: w)
  case Nil
  show ?case by simp
next
  case (Cons x items)
  obtain i k where x: "x = (i, k)" by (cases x)
  show ?case
  proof (cases "eeg_frame e (length (calls w)) k")
    case (Inl err)
    then show ?thesis by (simp add: x get_unit_wind_eeg_frame)
  next
    case (Inr f)
    let ?w1 = "write_to_csv (csv_wind_eeg e) f (0 < i) (w\<lparr>calls := calls w @ [GetAnlageEegWind k]\<rparr>)"
    from Cons.IH [of ?w1] obtain cs where
      "calls (snd (download_unit_wind_eeg_loop e items ?w1)) = calls ?w1 @ cs" ..
    with Inr show ?thesis
      by (simp add: x get_unit_wind_eeg_frame calls_write_to_csv)
  qed
qed

lemma download_unit_wind_requests:
  assumes "setup_power_unit_wind e w = (Inr unit_wind, w1)"
    and "column_values unit_wind ''EinheitMastrNummer'' = Some ids" and "ids \<noteq> []"
  shows "calls (snd (download_unit_wind e w)) \<noteq> calls w1"
proof -
  from assms(3) obtain k ks where ids: "ids = k # ks" by (cases ids) simp_all
  have items: "zip [0..<length ids] ids = (0, k) # map (\<lambda>x. (Suc (fst x), snd x)) (zip [0..<length ks] ks)"
    unfolding ids by (rule zip_upt_Cons)
  show ?thesis
  proof (cases "wind_frame e (length (calls w1)) k")
    case (Inl err)
    then show ?thesis
      by (simp add: download_unit_wind_def assms(1,2) items get_power_unit_wind_frame)
  next
    case (Inr f)
    let ?w2 = "write_to_csv (csv_wind e) f False (w1\<lparr>calls := calls w1 @ [GetEinheitWind k]\<rparr>)"
    from download_unit_wind_loop_extends
      [of e 0 "map (\<lambda>x. (Suc (fst x), snd x)) (zip [0..<length ks] ks)" ?w2]
    obtain cs where "calls (snd (download_unit_wind_loop e 0
        (map (\<lambda>x. (Suc (fst x), snd x)) (zip [0..<length ks] ks)) ?w2)) = calls ?w2 @ cs" ..
    with Inr show ?thesis
      by (simp add: download_unit_wind_def assms(1,2) items get_power_unit_wind_frame calls_write_to_csv)
  qed
qed

lemma download_unit_wind_eeg_requests:
  assumes "setup_power_unit_wind e w = (Inr unit_wind, w1)"
    and "column_values unit_wind ''EegMastrNummer'' = Some ids" and "ids \<noteq> []"
  shows "calls (snd (download_unit_wind_eeg e w)) \<noteq> calls w1"
proof -
  from assms(3) obtain k ks where ids: "ids = k # ks" by (cases ids) simp_all
  have items: "zip [0..<length ids] ids = (0, k) # map (\<lambda>x. (Suc (fst x), snd x)) (zip [0..<length ks] ks)"
    unfolding ids by (rule zip_upt_Cons)
  show ?thesis
  proof (cases "eeg_frame e (length (calls w1)) k")
    case (Inl err)
    then show ?thesis
      by (simp add: download_unit_wind_eeg_def assms(1,2) items get_unit_wind_eeg_frame)
  next
    case (Inr f)
    let ?w2 = "write_to_csv (csv_wind_eeg e) f False (w1\<lparr>calls := calls w1 @ [GetAnlageEegWind k]\<rparr>)"
    from download_unit_wind_eeg_loop_extends
      [of e "map (\<lambda>x. (Suc (fst x), snd x)) (zip [0..<length ks] ks)" ?w2]
    obtain cs where "calls (snd (download_unit_wind_eeg_loop e
        (map (\<lambda>x. (Suc (fst x), snd x)) (zip [0..<length ks] ks)) ?w2)) = calls ?w2 @ cs" ..
    with Inr show ?thesis
      by (simp add: download_unit_wind_eeg_def assms(1,2) items get_unit_wind_eeg_frame calls_write_to_csv)
  qed
qed


text \<open>
  Claim C3, as amended. None of the three download workflows looks at its output file.

  \<^item> The result and the requests of the bulk download are the same in any two states with
    the same request log, whatever files exist; with a positive limit and a positive
    expected total it always sends a request; and when its pages are fetched it sends
    one request per page and leaves the Stage 1 file holding the header of the first
    page and the data lines of all pages, whatever the file held before.
  \<^item> The result and the requests of the two per-unit downloads are the same in any two
    states that agree on the request log, the Stage 1 file and the wind file, whatever
    their own output files hold; with a non-empty identifier list each sends a request;
    and when its fetches yield frames it sends one request per identifier and leaves
    its output file holding the header of the first answer and the data lines of all
    answers, whatever the file held before.
  \<^item> Only the derivation of the wind subset is checkpointed by file presence: when the
    wind file is present, \<^verbatim>\<open>setup_power_unit_wind\<close> reads it and changes nothing; when it
    is absent, the subset is derived from the Stage 1 file, returned and written to the
    wind file under a header.
\<close>

theorem downloads_ignore_output_files:
  "(calls w3 = calls w \<longrightarrow>
      fst (download_power_unit e N L w3) = fst (download_power_unit e N L w) \<and>
      calls (snd (download_power_unit e N L w3)) = calls (snd (download_power_unit e N L w))) \<and>
   (0 < L \<and> 0 < N \<longrightarrow> calls (snd (download_power_unit e N L w)) \<noteq> calls w) \<and>
   (0 < L \<and> 0 < N \<and>
    (\<forall>k < page_count N L. page_frame e (length (calls w) + k) (int k * L) L = Inr (pg k)) \<longrightarrow>
      fst (download_power_unit e N L w) = Inr () \<and>
      calls (snd (download_power_unit e N L w))
        = calls w @ map (\<lambda>k. GetGefilterteListeStromErzeuger (int k * L) L) [0..<page_count N L] \<and>
      files (snd (download_power_unit e N L w)) (csv_see e) = Some (fresh_file pg (page_count N L))) \<and>
   (calls w2 = calls w \<and> files w2 (csv_see e) = files w (csv_see e) \<and>
    files w2 (csv_see_wind e) = files w (csv_see_wind e) \<longrightarrow>
      fst (download_unit_wind e w2) = fst (download_unit_wind e w) \<and>
      calls (snd (download_unit_wind e w2)) = calls (snd (download_unit_wind e w)) \<and>
      fst (download_unit_wind_eeg e w2) = fst (download_unit_wind_eeg e w) \<and>
      calls (snd (download_unit_wind_eeg e w2)) = calls (snd (download_unit_wind_eeg e w))) \<and>
   (setup_power_unit_wind e w = (Inr unit_wind, w1) \<and>
    column_values unit_wind ''EinheitMastrNummer'' = Some see_ids \<and> see_ids \<noteq> [] \<longrightarrow>
      calls (snd (download_unit_wind e w)) \<noteq> calls w1 \<and>
      ((\<forall>j < length see_ids. wind_frame e (length (calls w1) + j) (see_ids ! j) = Inr (see j)) \<longrightarrow>
         fst (download_unit_wind e w) = Inr () \<and>
         calls (snd (download_unit_wind e w)) = calls w1 @ map GetEinheitWind see_ids \<and>
         files (snd (download_unit_wind e w)) (csv_wind e) = Some (fresh_file see (length see_ids)))) \<and>
   (setup_power_unit_wind e w = (Inr unit_wind, w1) \<and>
    column_values unit_wind ''EegMastrNummer'' = Some eeg_ids \<and> eeg_ids \<noteq> [] \<longrightarrow>
      calls (snd (download_unit_wind_eeg e w)) \<noteq> calls w1 \<and>
      ((\<forall>j < length eeg_ids. eeg_frame e (length (calls w1) + j) (eeg_ids ! j) = Inr (eeg j)) \<longrightarrow>
         fst (download_unit_wind_eeg e w) = Inr () \<and>
         calls (snd (download_unit_wind_eeg e w)) = calls w1 @ map GetAnlageEegWind eeg_ids \<and>
         files (snd (download_unit_wind_eeg e w)) (csv_wind_eeg e)
           = Some (fresh_file eeg (length eeg_ids)))) \<and>
   (files w (csv_see_wind e) \<noteq> None \<longrightarrow>
      setup_power_unit_wind e w = (read_power_units e (csv_see_wind e) w, w)) \<and>
   (files w (csv_see_wind e) = None \<and> read_power_units e (csv_see e) w = Inr power_unit \<and>
    column_index (columns power_unit) ''Einheittyp'' = Some c \<longrightarrow>
      fst (setup_power_unit_wind e w) = Inr (wind_subset c power_unit) \<and>
      files (snd (setup_power_unit_wind e w))
        = (files w)(csv_see_wind e \<mapsto>
             csv_header (wind_subset c power_unit) # csv_rows (wind_subset c power_unit)))"
proof -
  have stage1: "calls w3 = calls w \<longrightarrow>
      fst (download_power_unit e N L w3) = fst (download_power_unit e N L w) \<and>
      calls (snd (download_power_unit e N L w3)) = calls (snd (download_power_unit e N L w))"
    by (rule impI) (rule download_power_unit_calls)
  have runs: "0 < L \<and> 0 < N \<longrightarrow> calls (snd (download_power_unit e N L w)) \<noteq> calls w"
    by (simp add: download_power_unit_requests)
  have bulk: "0 < L \<and> 0 < N \<and>
    (\<forall>k < page_count N L. page_frame e (length (calls w) + k) (int k * L) L = Inr (pg k)) \<longrightarrow>
      fst (download_power_unit e N L w) = Inr () \<and>
      calls (snd (download_power_unit e N L w))
        = calls w @ map (\<lambda>k. GetGefilterteListeStromErzeuger (int k * L) L) [0..<page_count N L] \<and>
      files (snd (download_power_unit e N L w)) (csv_see e) = Some (fresh_file pg (page_count N L))"
  proof (intro impI)
    assume a: "0 < L \<and> 0 < N \<and>
      (\<forall>k < page_count N L. page_frame e (length (calls w) + k) (int k * L) L = Inr (pg k))"
    then have "0 < page_count N L"
      using page_count_less [of L 0 N] by simp
    with download_power_unit_run [of L N e w pg] a
    show "fst (download_power_unit e N L w) = Inr () \<and>
      calls (snd (download_power_unit e N L w))
        = calls w @ map (\<lambda>k. GetGefilterteListeStromErzeuger (int k * L) L) [0..<page_count N L] \<and>
      files (snd (download_power_unit e N L w)) (csv_see e) = Some (fresh_file pg (page_count N L))"
      by (simp add: fresh_file_def)
  qed
  have keyed: "calls w2 = calls w \<and> files w2 (csv_see e) = files w (csv_see e) \<and>
    files w2 (csv_see_wind e) = files w (csv_see_wind e) \<longrightarrow>
      fst (download_unit_wind e w2) = fst (download_unit_wind e w) \<and>
      calls (snd (download_unit_wind e w2)) = calls (snd (download_unit_wind e w)) \<and>
      fst (download_unit_wind_eeg e w2) = fst (download_unit_wind_eeg e w) \<and>
      calls (snd (download_unit_wind_eeg e w2)) = calls (snd (download_unit_wind_eeg e w))"
    using download_unit_wind_agree [of w2 w e] download_unit_wind_eeg_agree [of w2 w e]
    by simp
  have stage3: "setup_power_unit_wind e w = (Inr unit_wind, w1) \<and>
    column_values unit_wind ''EinheitMastrNummer'' = Some see_ids \<and> see_ids \<noteq> [] \<longrightarrow>
      calls (snd (download_unit_wind e w)) \<noteq> calls w1 \<and>
      ((\<forall>j < length see_ids. wind_frame e (length (calls w1) + j) (see_ids ! j) = Inr (see j)) \<longrightarrow>
         fst (download_unit_wind e w) = Inr () \<and>
         calls (snd (download_unit_wind e w)) = calls w1 @ map GetEinheitWind see_ids \<and>
         files (snd (download_unit_wind e w)) (csv_wind e) = Some (fresh_file see (length see_ids)))"
  proof (intro impI conjI)
    assume a: "setup_power_unit_wind e w = (Inr unit_wind, w1) \<and>
      column_values unit_wind ''EinheitMastrNummer'' = Some see_ids \<and> see_ids \<noteq> []"
    then show "calls (snd (download_unit_wind e w)) \<noteq> calls w1"
      using download_unit_wind_requests [of e w unit_wind w1 see_ids] by simp
    assume b: "\<forall>j < length see_ids. wind_frame e (length (calls w1) + j) (see_ids ! j) = Inr (see j)"
    from a b download_unit_wind_run [of e w unit_wind w1 see_ids see]
    show "fst (download_unit_wind e w) = Inr ()"
      and "calls (snd (download_unit_wind e w)) = calls w1 @ map GetEinheitWind see_ids"
      and "files (snd (download_unit_wind e w)) (csv_wind e) = Some (fresh_file see (length see_ids))"
      by (simp_all add: fresh_file_def)
  qed
  have stage4: "setup_power_unit_wind e w = (Inr unit_wind, w1) \<and>
    column_values unit_wind ''EegMastrNummer'' = Some eeg_ids \<and> eeg_ids \<noteq> [] \<longrightarrow>
      calls (snd (download_unit_wind_eeg e w)) \<noteq> calls w1 \<and>
      ((\<forall>j < length eeg_ids. eeg_frame e (length (calls w1) + j) (eeg_ids ! j) = Inr (eeg j)) \<longrightarrow>
         fst (download_unit_wind_eeg e w) = Inr () \<and>
         calls (snd (download_unit_wind_eeg e w)) = calls w1 @ map GetAnlageEegWind eeg_ids \<and>
         files (snd (download_unit_wind_eeg e w)) (csv_wind_eeg e)
           = Some (fresh_file eeg (length eeg_ids)))"
  proof (intro impI conjI)
    assume a: "setup_power_unit_wind e w = (Inr unit_wind, w1) \<and>
      column_values unit_wind ''EegMastrNummer'' = Some eeg_ids \<and> eeg_ids \<noteq> []"
    then show "calls (snd (download_unit_wind_eeg e w)) \<noteq> calls w1"
      using download_unit_wind_eeg_requests [of e w unit_wind w1 eeg_ids] by simp
    assume b: "\<forall>j < length eeg_ids. eeg_frame e (length (calls w1) + j) (eeg_ids ! j) = Inr (eeg j)"
    from a b download_unit_wind_eeg_run [of e w unit_wind w1 eeg_ids eeg]
    show "fst (download_unit_wind_eeg e w) = Inr ()"
      and "calls (snd (download_unit_wind_eeg e w)) = calls w1 @ map GetAnlageEegWind eeg_ids"
      and "files (snd (download_unit_wind_eeg e w)) (csv_wind_eeg e)
             = Some (fresh_file eeg (length eeg_ids))"
      by (simp_all add: fresh_file_def)
  qed
  have present: "files w (csv_see_wind e) \<noteq> None \<longrightarrow>
      setup_power_unit_wind e w = (read_power_units e (csv_see_wind e) w, w)"
    by (auto simp: setup_power_unit_wind_present)
  have absent: "files w (csv_see_wind e) = None \<and> read_power_units e (csv_see e) w = Inr power_unit \<and>
    column_index (columns power_unit) ''Einheittyp'' = Some c \<longrightarrow>
      fst (setup_power_unit_wind e w) = Inr (wind_subset c power_unit) \<and>
      files (snd (setup_power_unit_wind e w))
        = (files w)(csv_see_wind e \<mapsto>
             csv_header (wind_subset c power_unit) # csv_rows (wind_subset c power_unit))"
    by (simp add: setup_power_unit_wind_absent wind_subset_def files_write_to_csv)
  from stage1 runs bulk keyed stage3 stage4 present absent show ?thesis
    by (intro conjI)
qed


theorem downloads_ignore_output_files_witness:
  "files stage1_world ''data/bnetza_mastr_v1_stromerzeuger.csv'' \<noteq> None \<and>
   calls (snd (download_power_unit (mock_env three_units) 3 2 stage1_world))
     = [GetGefilterteListeStromErzeuger 0 2, GetGefilterteListeStromErzeuger 2 2] \<and>
   calls (snd (download_power_unit (mock_env three_units) 3 2 wind_world))
     = calls (snd (download_power_unit (mock_env three_units) 3 2 stage1_world)) \<and>
   files (snd (download_power_unit (mock_env three_units) 3 2 stage1_world))
       ''data/bnetza_mastr_v1_stromerzeuger.csv''
     = Some [[''lid'', ''EinheitMastrNummer'', ''Einheittyp'', ''Standort'', ''EegMastrNummer'',
              ''version'', ''timestamp''],
             [''0'', ''SEE1'', ''Windeinheit'', ''Hof Nord'', ''EEG1'', ''v1'', ''t0''],
             [''1'', ''SEE2'', ''Solareinheit'', ''Dach'', [], ''v1'', ''t0''],
             [''0'', ''SEE3'', ''Windeinheit'', ''Feld'', ''EEG1'', ''v1'', ''t1'']] \<and>
   files (snd (setup_power_unit_wind (mock_env three_units) stage1_world))
       ''data/bnetza_mastr_v1_stromerzeuger_wind.csv''
     = Some [[''id'', ''lid'', ''EinheitMastrNummer'', ''Einheittyp'', ''Standort'', ''EegMastrNummer'',
              ''version'', ''timestamp''],
             [''0'', ''0'', ''SEE1'', ''Windeinheit'', ''Hof Nord'', ''EEG1'', ''v1'', ''t0''],
             [''2'', ''0'', ''SEE3'', ''Windeinheit'', ''Feld'', ''EEG1'', ''v1'', ''t1'']] \<and>
   files done_world ''data/bnetza_mastr_v1_windeinheit.csv'' \<noteq> None \<and>
   files done_world ''data/bnetza_mastr_v1_windeeg.csv'' \<noteq> None \<and>
   setup_power_unit_wind (mock_env three_units) done_world = (Inr wind_world_frame, done_world) \<and>
   calls (snd (download_unit_wind (mock_env three_units) done_world))
     = [GetEinheitWind (Str ''SEE1''), GetEinheitWind (Str ''SEE3'')] \<and>
   calls (snd (download_unit_wind (mock_env three_units) wind_world))
     = calls (snd (download_unit_wind (mock_env three_units) done_world)) \<and>
   files (snd (download_unit_wind (mock_env three_units) done_world))
       ''data/bnetza_mastr_v1_windeinheit.csv''
     = Some [[''lid'', ''Ergebniscode'', ''EinheitMastrNummer'', ''version'', ''timestamp''],
             [''1'', ''OK'', ''SEE1'', ''v1'', ''t0''],
             [''1'', ''OK'', ''SEE3'', ''v1'', ''t1'']] \<and>
   calls (snd (download_unit_wind_eeg (mock_env three_units) done_world))
     = [GetAnlageEegWind (Str ''EEG1''), GetAnlageEegWind (Str ''EEG1'')] \<and>
   calls (snd (download_unit_wind_eeg (mock_env three_units) wind_world))
     = calls (snd (download_unit_wind_eeg (mock_env three_units) done_world)) \<and>
   files (snd (download_unit_wind_eeg (mock_env three_units) done_world))
       ''data/bnetza_mastr_v1_windeeg.csv''
     = Some [[''lid'', ''Ergebniscode'', ''EegMastrNummer'', ''version'', ''timestamp''],
             [''1'', ''OK'', ''EEG1'', ''v1'', ''t0''],
             [''1'', ''OK'', ''EEG1'', ''v1'', ''t1'']]"
proof -
  let ?e = "mock_env three_units"
  have present: "files stage1_world ''data/bnetza_mastr_v1_stromerzeuger.csv'' \<noteq> None"
    "files done_world ''data/bnetza_mastr_v1_windeinheit.csv'' \<noteq> None"
    "files done_world ''data/bnetza_mastr_v1_windeeg.csv'' \<noteq> None"
    by (simp_all add: stage1_world_def done_world_def)
  have no_calls: "calls stage1_world = []" "calls wind_world = []" "calls done_world = []"
    by (simp_all add: stage1_world_def wind_world_def done_world_def)
  have limit: "(0::int) < 2 \<and> (0::int) < 3"
    by simp
  have pages: "\<forall>k < page_count 3 2.
      page_frame ?e (length (calls stage1_world) + k) (int k * 2) 2 = Inr (three_units_page k)"
    by (simp add: page_count_3_2 less_2_cases_iff no_calls three_units_pages three_units_page_def)
  have absent: "files stage1_world (csv_see_wind ?e) = None"
    by (simp add: csv_mock stage1_world_def)
  have stage1: "read_power_units ?e (csv_see ?e) stage1_world = Inr stage1_frame"
    by (simp add: csv_see_mock stage1_world_eval)
  have wind_file: "files done_world (csv_see_wind ?e) \<noteq> None"
    by (simp add: csv_mock done_world_def wind_world_def)
  have agree: "files wind_world (csv_see ?e) = files done_world (csv_see ?e)"
    "files wind_world (csv_see_wind ?e) = files done_world (csv_see_wind ?e)"
    by (simp_all add: csv_see_mock csv_mock done_world_def)
  have see: "\<forall>j < length [Str ''SEE1'', Str ''SEE3''].
      wind_frame ?e (length (calls done_world) + j) ([Str ''SEE1'', Str ''SEE3''] ! j) = Inr (see_frame j)"
    by (simp add: no_calls less_Suc_eq rerun_eval)
  have eeg: "\<forall>j < length [Str ''EEG1'', Str ''EEG1''].
      eeg_frame ?e (length (calls done_world) + j) ([Str ''EEG1'', Str ''EEG1''] ! j) = Inr (eeg1_frame j)"
    by (simp add: no_calls less_Suc_eq wind_world_eval)
  note bulk = downloads_ignore_output_files
    [where ?w3.0 = wind_world and w = stage1_world and e = ?e and N = 3 and L = 2
       and pg = three_units_page and power_unit = stage1_frame and c = 2]
  from bulk limit pages absent stage1 stage1_world_eval(2) no_calls
  have a: "calls (snd (download_power_unit ?e 3 2 stage1_world))
             = [GetGefilterteListeStromErzeuger 0 2, GetGefilterteListeStromErzeuger 2 2]"
    "calls (snd (download_power_unit ?e 3 2 wind_world))
       = calls (snd (download_power_unit ?e 3 2 stage1_world))"
    "files (snd (download_power_unit ?e 3 2 stage1_world)) (csv_see ?e)
       = Some (fresh_file three_units_page 2)"
    "files (snd (setup_power_unit_wind ?e stage1_world)) (csv_see_wind ?e)
       = Some (csv_header stage2_frame # csv_rows stage2_frame)"
    by (simp_all add: page_count_3_2 rerun_eval upt_conv_Cons)
  from downloads_ignore_output_files [where w = done_world and e = ?e] wind_file
  have stage2: "setup_power_unit_wind ?e done_world = (Inr wind_world_frame, done_world)"
    by (simp add: csv_mock rerun_eval)
  note keyed = downloads_ignore_output_files
    [where w = done_world and e = ?e and ?w2.0 = wind_world and unit_wind = wind_world_frame
       and ?w1.0 = done_world and see_ids = "[Str ''SEE1'', Str ''SEE3'']" and see = see_frame
       and eeg_ids = "[Str ''EEG1'', Str ''EEG1'']" and eeg = eeg1_frame]
  from keyed stage2 rerun_eval(2) wind_world_eval(2) see eeg agree no_calls
  have b: "calls (snd (download_unit_wind ?e done_world))
             = [GetEinheitWind (Str ''SEE1''), GetEinheitWind (Str ''SEE3'')]"
    "calls (snd (download_unit_wind ?e wind_world)) = calls (snd (download_unit_wind ?e done_world))"
    "files (snd (download_unit_wind ?e done_world)) (csv_wind ?e) = Some (fresh_file see_frame (Suc (Suc 0)))"
    "calls (snd (download_unit_wind_eeg ?e done_world))
             = [GetAnlageEegWind (Str ''EEG1''), GetAnlageEegWind (Str ''EEG1'')]"
    "calls (snd (download_unit_wind_eeg ?e wind_world))
       = calls (snd (download_unit_wind_eeg ?e done_world))"
    "files (snd (download_unit_wind_eeg ?e done_world)) (csv_wind_eeg ?e)
       = Some (fresh_file eeg1_frame (Suc (Suc 0)))"
    by simp_all
  from present a b stage2 show ?thesis
    by (simp add: csv_see_mock csv_mock rerun_eval stage1_world_eval)
qed


text \<open>
  Claim C3 as stated fails: with the output file of Stage 1 present, the bulk download
  runs its loop again, sends both page requests and overwrites the file.
\<close>

theorem download_power_unit_rerun_counterexample:
  "files stage1_world ''data/bnetza_mastr_v1_stromerzeuger.csv'' \<noteq> None \<and>
   calls (snd (download_power_unit (mock_env three_units) 3 2 stage1_world))
     = [GetGefilterteListeStromErzeuger 0 2, GetGefilterteListeStromErzeuger 2 2] \<and>
   files (snd (download_power_unit (mock_env three_units) 3 2 stage1_world))
       ''data/bnetza_mastr_v1_stromerzeuger.csv''
     = Some [[''lid'', ''EinheitMastrNummer'', ''Einheittyp'', ''Standort'', ''EegMastrNummer'',
              ''version'', ''timestamp''],
             [''0'', ''SEE1'', ''Windeinheit'', ''Hof Nord'', ''EEG1'', ''v1'', ''t0''],
             [''1'', ''SEE2'', ''Solareinheit'', ''Dach'', [], ''v1'', ''t0''],
             [''0'', ''SEE3'', ''Windeinheit'', ''Feld'', ''EEG1'', ''v1'', ''t1'']]"
  by code_simp

subsection \<open>Reading back what was written\<close>

lemma read_csv_plain_cells:
  assumes content: "files w p = Some (h # body)" and plain: "plain_table (h # body)"
  shows "\<exists>f. read_csv e dtype p w = Inr f \<and> index_name f = None \<and> columns f = h \<and>
           index f = [0..<length body] \<and> length (rows f) = length body \<and>
           (\<forall>i < length body. \<forall>j < length h.
              h ! j \<in> set dtype \<longrightarrow> rows f ! i ! j = parse_str e (body ! i ! j))"
proof -
  let ?cols = "map (\<lambda>(j, c). let texts = map (\<lambda>r. r ! j) body
                               in if c \<in> set dtype then map (parse_str e) texts
                                  else infer_column e texts) (zip [0..<length h] h)"
  let ?f = "\<lparr>index_name = None, columns = h, index = [0..<length body],
             rows = map (\<lambda>i. map (\<lambda>col. cell_at col i) ?cols) [0..<length body]\<rparr>"
  have res: "read_csv e dtype p w = Inr ?f"
    using content plain by (simp add: read_csv_def)
  have cells: "\<forall>i < length body. \<forall>j < length h.
      h ! j \<in> set dtype \<longrightarrow> rows ?f ! i ! j = parse_str e (body ! i ! j)"
  proof (intro allI impI)
    fix i j
    assume i: "i < length body" and j: "j < length h" and declared: "h ! j \<in> set dtype"
    have col: "?cols ! j = map (parse_str e) (map (\<lambda>r. r ! j) body)"
      using j declared by (simp add: Let_def)
    have "rows ?f ! i ! j = cell_at (?cols ! j) i"
      using i j by simp
    also have "\<dots> = parse_str e (body ! i ! j)"
      using i by (simp add: col cell_at_def)
    finally show "rows ?f ! i ! j = parse_str e (body ! i ! j)" .
  qed
  from res cells show ?thesis
    by (intro exI [of _ ?f]) simp
qed

lemma read_back_cells:
  assumes rect: "rectangular df"
    and names: "distinct (csv_header df)" "[] \<notin> set (csv_header df)"
    and content: "files w p = Some (csv_header df # csv_rows df)"
  shows "\<exists>reread. read_power_units e p w = Inr reread \<and> columns reread = csv_header df \<and>
           length (rows reread) = length (rows df) \<and>
           (\<forall>i < length (rows df). \<forall>j < length (columns df).
              columns df ! j \<in> set power_unit_dtype \<longrightarrow>
                rows reread ! i ! Suc j = coerce_str e (rows df ! i ! j))"
proof -
  have plain: "plain_table (csv_header df # csv_rows df)"
    using rect names by (rule plain_table_csv)
  have count: "length (csv_rows df) = length (rows df)"
    using rect by (simp add: length_csv_rows rectangular_def)
  from read_csv_plain_cells [OF content plain, of e power_unit_dtype]
  obtain reread where rb: "read_csv e power_unit_dtype p w = Inr reread" "columns reread = csv_header df"
      "length (rows reread) = length (csv_rows df)"
    and cells: "\<forall>i < length (csv_rows df). \<forall>j < length (csv_header df).
        csv_header df ! j \<in> set power_unit_dtype \<longrightarrow> rows reread ! i ! j = parse_str e (csv_rows df ! i ! j)"
    by blast
  have "\<forall>i < length (rows df). \<forall>j < length (columns df).
      columns df ! j \<in> set power_unit_dtype \<longrightarrow> rows reread ! i ! Suc j = coerce_str e (rows df ! i ! j)"
  proof (intro allI impI)
    fix i j
    assume i: "i < length (rows df)" and j: "j < length (columns df)"
      and declared: "columns df ! j \<in> set power_unit_dtype"
    have idx: "i < length (index df)"
      using rect i by (simp add: rectangular_def)
    have len: "length (rows df ! i) = length (columns df)"
      using rect i by (rule rectangular_row)
    have field: "csv_rows df ! i ! Suc j = render (rows df ! i ! j)"
      using i idx j len by (simp add: csv_rows_nth)
    have "csv_header df ! Suc j = columns df ! j" "Suc j < length (csv_header df)"
      using j by (simp_all add: csv_header_def)
    with cells i count declared have "rows reread ! i ! Suc j = parse_str e (csv_rows df ! i ! Suc j)"
      by simp
    then show "rows reread ! i ! Suc j = coerce_str e (rows df ! i ! j)"
      by (simp add: field coerce_str_def)
  qed
  with rb count show ?thesis
    by (simp add: read_power_units_def)
qed



lemma rectangular_map_column: "rectangular df \<Longrightarrow> rectangular (map_column c f df)"
  by (auto simp: rectangular_def map_column_def list_all_iff)

lemma render_coerce_str: "set (render (coerce_str e c)) \<subseteq> set (render c)"
  by (simp add: coerce_str_def parse_str_def)







lemma index_name_stamped: "index_name (stamped_frame e ts einheiten) = Some ''lid''"
  by (simp add: stamped_frame_def set_column_def)

lemma Standort_declared: "''Standort'' \<in> set power_unit_dtype"
  by (simp add: power_unit_dtype_def)

text \<open>
  Claim C6, as amended. When the registry delivers a page that has a \<^verbatim>\<open>Standort\<close> column,
  the frame \<^verbatim>\<open>get_power_unit\<close> returns has the columns, the index and the number of rows
  of the page as delivered and stamped; every cell outside \<^verbatim>\<open>Standort\<close> is unchanged, and
  the text of every \<^verbatim>\<open>Standort\<close> cell is the delivered text without its double-quote
  characters, so it contains none, and neither does the field that \<^verbatim>\<open>to_csv\<close> writes for
  it. The stripping is part of the fetch, so it precedes every write. When the column
  names are distinct, non-empty and other than \<^verbatim>\<open>lid\<close>, writing the frame and reading it
  with \<^verbatim>\<open>read_power_units\<close> gives as many rows under the added first column \<^verbatim>\<open>lid\<close>; the
  \<^verbatim>\<open>Standort\<close> cell read back is the stripped cell under the declared coercion to a
  string (missing when the stripped text is empty or an NA string) and contains no
  double quote, and every other cell of a declared column is the delivered cell under
  that coercion.
\<close>

theorem get_power_unit_strips_quotes:
  assumes api: "bind_GetGefilterteListeStromErzeuger e start limit = Inr einheiten"
    and raw: "g = stamped_frame e (now e (length (calls w))) einheiten"
    and col: "''Standort'' \<in> set (columns g)"
  shows "\<exists>f. fst (get_power_unit e start limit w) = Inr f \<and>
           columns f = columns g \<and> index f = index g \<and> length (rows f) = length (rows g) \<and>
           (\<forall>i < length (rows g). \<forall>j < length (columns g).
              (columns g ! j \<noteq> ''Standort'' \<longrightarrow> rows f ! i ! j = rows g ! i ! j) \<and>
              (columns g ! j = ''Standort'' \<longrightarrow>
                 render (rows f ! i ! j) = filter (\<lambda>ch. ch \<noteq> CHR 0x22) (render (rows g ! i ! j)) \<and>
                 CHR 0x22 \<notin> set (render (rows f ! i ! j)) \<and>
                 CHR 0x22 \<notin> set (csv_rows f ! i ! Suc j))) \<and>
           (distinct (''lid'' # columns g) \<and> [] \<notin> set (columns g) \<longrightarrow>
              (\<exists>reread. read_power_units e p (write_to_csv p f False w2) = Inr reread \<and>
                 columns reread = ''lid'' # columns g \<and>
                 length (rows reread) = length (rows g) \<and>
                 (\<forall>i < length (rows g). \<forall>j < length (columns g).
                    (columns g ! j = ''Standort'' \<longrightarrow>
                       rows reread ! i ! Suc j = coerce_str e (rows f ! i ! j) \<and>
                       CHR 0x22 \<notin> set (render (rows reread ! i ! Suc j))) \<and>
                    (columns g ! j \<noteq> ''Standort'' \<and> columns g ! j \<in> set power_unit_dtype \<longrightarrow>
                       rows reread ! i ! Suc j = coerce_str e (rows g ! i ! j)))))"
proof -
  let ?f = "map_column ''Standort'' str_replace_quote g"
  have rect: "rectangular g"
    by (simp add: raw rectangular_stamped)
  have res: "fst (get_power_unit e start limit w) = Inr ?f"
    using col by (simp add: get_power_unit_page page_frame_def api power_unit_frame_stamped raw)
  have cells: "\<forall>i < length (rows g). \<forall>j < length (columns g).
      (columns g ! j \<noteq> ''Standort'' \<longrightarrow> rows ?f ! i ! j = rows g ! i ! j) \<and>
      (columns g ! j = ''Standort'' \<longrightarrow>
         render (rows ?f ! i ! j) = filter (\<lambda>ch. ch \<noteq> CHR 0x22) (render (rows g ! i ! j)) \<and>
         CHR 0x22 \<notin> set (render (rows ?f ! i ! j)) \<and>
         CHR 0x22 \<notin> set (csv_rows ?f ! i ! Suc j))"
  proof (intro allI impI)
    fix i j
    assume i: "i < length (rows g)" and j: "j < length (columns g)"
    have len: "length (rows g ! i) = length (columns g)"
      using rect i by (rule rectangular_row)
    have cell: "rows ?f ! i ! j
        = (if columns g ! j = ''Standort'' then str_replace_quote (rows g ! i ! j) else rows g ! i ! j)"
      using i len j by (rule map_column_cell)
    have idx: "i < length (index g)"
      using rect i by (simp add: rectangular_def)
    have line: "csv_rows ?f ! i ! Suc j = render (rows ?f ! i ! j)"
      using i idx j len by (simp add: csv_rows_nth map_column_frame map_column_row_length)
    show "(columns g ! j \<noteq> ''Standort'' \<longrightarrow> rows ?f ! i ! j = rows g ! i ! j) \<and>
      (columns g ! j = ''Standort'' \<longrightarrow>
         render (rows ?f ! i ! j) = filter (\<lambda>ch. ch \<noteq> CHR 0x22) (render (rows g ! i ! j)) \<and>
         CHR 0x22 \<notin> set (render (rows ?f ! i ! j)) \<and>
         CHR 0x22 \<notin> set (csv_rows ?f ! i ! Suc j))"
      by (simp add: cell line render_str_replace_quote)
  qed
  have trip: "distinct (''lid'' # columns g) \<and> [] \<notin> set (columns g) \<longrightarrow>
      (\<exists>reread. read_power_units e p (write_to_csv p ?f False w2) = Inr reread \<and>
         columns reread = ''lid'' # columns g \<and>
         length (rows reread) = length (rows g) \<and>
         (\<forall>i < length (rows g). \<forall>j < length (columns g).
            (columns g ! j = ''Standort'' \<longrightarrow>
               rows reread ! i ! Suc j = coerce_str e (rows ?f ! i ! j) \<and>
               CHR 0x22 \<notin> set (render (rows reread ! i ! Suc j))) \<and>
            (columns g ! j \<noteq> ''Standort'' \<and> columns g ! j \<in> set power_unit_dtype \<longrightarrow>
               rows reread ! i ! Suc j = coerce_str e (rows g ! i ! j))))"
  proof (intro impI)
    assume a: "distinct (''lid'' # columns g) \<and> [] \<notin> set (columns g)"
    have rect': "rectangular ?f"
      using rect by (rule rectangular_map_column)
    have header: "csv_header ?f = ''lid'' # columns g"
      by (simp add: csv_header_def map_column_frame raw index_name_stamped)
    have names: "distinct (csv_header ?f)" "[] \<notin> set (csv_header ?f)"
      using a by (simp_all add: header)
    have content: "files (write_to_csv p ?f False w2) p = Some (csv_header ?f # csv_rows ?f)"
      by (simp add: files_write_to_csv)
    from read_back_cells [OF rect' names content, of e]
    obtain reread where rb: "read_power_units e p (write_to_csv p ?f False w2) = Inr reread"
        "columns reread = ''lid'' # columns g" "length (rows reread) = length (rows g)"
      and declared: "\<forall>i < length (rows g). \<forall>j < length (columns g).
          columns g ! j \<in> set power_unit_dtype \<longrightarrow>
            rows reread ! i ! Suc j = coerce_str e (rows ?f ! i ! j)"
      by (auto simp: header map_column_frame)
    have "\<forall>i < length (rows g). \<forall>j < length (columns g).
            (columns g ! j = ''Standort'' \<longrightarrow>
               rows reread ! i ! Suc j = coerce_str e (rows ?f ! i ! j) \<and>
               CHR 0x22 \<notin> set (render (rows reread ! i ! Suc j))) \<and>
            (columns g ! j \<noteq> ''Standort'' \<and> columns g ! j \<in> set power_unit_dtype \<longrightarrow>
               rows reread ! i ! Suc j = coerce_str e (rows g ! i ! j))"
    proof (intro allI impI conjI)
      fix i j
      assume i: "i < length (rows g)" and j: "j < length (columns g)"
      {
        assume s: "columns g ! j = ''Standort''"
        with declared i j show eq: "rows reread ! i ! Suc j = coerce_str e (rows ?f ! i ! j)"
          by (simp add: Standort_declared)
        from cells i j s have "CHR 0x22 \<notin> set (render (rows ?f ! i ! j))"
          by simp
        with render_coerce_str [of e "rows ?f ! i ! j"]
        show "CHR 0x22 \<notin> set (render (rows reread ! i ! Suc j))"
          by (auto simp: eq)
      }
      {
        assume o: "columns g ! j \<noteq> ''Standort'' \<and> columns g ! j \<in> set power_unit_dtype"
        with declared i j have "rows reread ! i ! Suc j = coerce_str e (rows ?f ! i ! j)"
          by simp
        moreover from cells i j o have "rows ?f ! i ! j = rows g ! i ! j"
          by simp
        ultimately show "rows reread ! i ! Suc j = coerce_str e (rows g ! i ! j)"
          by simp
      }
    qed
    with rb show "\<exists>reread. read_power_units e p (write_to_csv p ?f False w2) = Inr reread \<and>
         columns reread = ''lid'' # columns g \<and>
         length (rows reread) = length (rows g) \<and>
         (\<forall>i < length (rows g). \<forall>j < length (columns g).
            (columns g ! j = ''Standort'' \<longrightarrow>
               rows reread ! i ! Suc j = coerce_str e (rows ?f ! i ! j) \<and>
               CHR 0x22 \<notin> set (render (rows reread ! i ! Suc j))) \<and>
            (columns g ! j \<noteq> ''Standort'' \<and> columns g ! j \<in> set power_unit_dtype \<longrightarrow>
               rows reread ! i ! Suc j = coerce_str e (rows g ! i ! j)))"
      by blast
  qed
  from res cells trip show ?thesis
    by (intro exI [of _ ?f]) (simp add: map_column_frame)
qed


theorem get_power_unit_strips_quotes_witness:
  "bind_GetGefilterteListeStromErzeuger (mock_env three_units) 0 2 = Inr (take 2 three_units) \<and>
   ''Standort'' \<in> set (columns (stamped_frame (mock_env three_units) ''t0'' (take 2 three_units))) \<and>
   rows (stamped_frame (mock_env three_units) ''t0'' (take 2 three_units)) ! 0 ! 2
     = Str (''Hof '' @ [CHR 0x22] @ ''Nord'' @ [CHR 0x22]) \<and>
   (\<exists>f. fst (get_power_unit (mock_env three_units) 0 2 empty_world) = Inr f \<and>
        render (rows f ! 0 ! 2) = ''Hof Nord'' \<and> rows f ! 0 ! 0 = Str ''SEE1'' \<and>
        (\<exists>reread. read_power_units (mock_env three_units) ''f.csv''
                     (write_to_csv ''f.csv'' f False empty_world) = Inr reread \<and>
           columns reread
             = [''lid'', ''EinheitMastrNummer'', ''Einheittyp'', ''Standort'', ''EegMastrNummer'',
                ''version'', ''timestamp''] \<and>
           rows reread ! 0 ! 3 = Str ''Hof Nord''))"
proof -
  let ?e = "mock_env three_units"
  let ?g = "stamped_frame ?e ''t0'' (take 2 three_units)"
  have raw: "?g = stamped_frame ?e (now ?e (length (calls empty_world))) (take 2 three_units)"
    by (simp only: three_units_raw)
  from get_power_unit_strips_quotes
    [OF three_units_raw(1) raw three_units_raw(3), of "''f.csv''" empty_world]
  obtain f where f: "fst (get_power_unit ?e 0 2 empty_world) = Inr f"
    and cells: "\<forall>i < length (rows ?g). \<forall>j < length (columns ?g).
        (columns ?g ! j \<noteq> ''Standort'' \<longrightarrow> rows f ! i ! j = rows ?g ! i ! j) \<and>
        (columns ?g ! j = ''Standort'' \<longrightarrow>
           render (rows f ! i ! j) = filter (\<lambda>ch. ch \<noteq> CHR 0x22) (render (rows ?g ! i ! j)) \<and>
           CHR 0x22 \<notin> set (render (rows f ! i ! j)) \<and>
           CHR 0x22 \<notin> set (csv_rows f ! i ! Suc j))"
    and trip: "distinct (''lid'' # columns ?g) \<and> [] \<notin> set (columns ?g) \<longrightarrow>
        (\<exists>reread. read_power_units ?e ''f.csv'' (write_to_csv ''f.csv'' f False empty_world) = Inr reread \<and>
           columns reread = ''lid'' # columns ?g \<and>
           length (rows reread) = length (rows ?g) \<and>
           (\<forall>i < length (rows ?g). \<forall>j < length (columns ?g).
              (columns ?g ! j = ''Standort'' \<longrightarrow>
                 rows reread ! i ! Suc j = coerce_str ?e (rows f ! i ! j) \<and>
                 CHR 0x22 \<notin> set (render (rows reread ! i ! Suc j))) \<and>
              (columns ?g ! j \<noteq> ''Standort'' \<and> columns ?g ! j \<in> set power_unit_dtype \<longrightarrow>
                 rows reread ! i ! Suc j = coerce_str ?e (rows ?g ! i ! j))))"
    by blast
  from cells have "render (rows f ! 0 ! 2) = filter (\<lambda>ch. ch \<noteq> CHR 0x22) (render (rows ?g ! 0 ! 2))"
    and "rows f ! 0 ! 0 = rows ?g ! 0 ! 0"
    by (simp_all add: three_units_raw)
  then have stripped: "render (rows f ! 0 ! 2) = ''Hof Nord''" "rows f ! 0 ! 0 = Str ''SEE1''"
    by (simp_all add: three_units_raw)
  from trip three_units_trip obtain reread where
    rb: "read_power_units ?e ''f.csv'' (write_to_csv ''f.csv'' f False empty_world) = Inr reread"
      "columns reread = ''lid'' # columns ?g"
    and read_cells: "\<forall>i < length (rows ?g). \<forall>j < length (columns ?g).
              (columns ?g ! j = ''Standort'' \<longrightarrow>
                 rows reread ! i ! Suc j = coerce_str ?e (rows f ! i ! j) \<and>
                 CHR 0x22 \<notin> set (render (rows reread ! i ! Suc j))) \<and>
              (columns ?g ! j \<noteq> ''Standort'' \<and> columns ?g ! j \<in> set power_unit_dtype \<longrightarrow>
                 rows reread ! i ! Suc j = coerce_str ?e (rows ?g ! i ! j))"
    by blast
  have "0 < length (rows ?g)" "2 < length (columns ?g)" "columns ?g ! 2 = ''Standort''"
    by (simp_all add: three_units_raw)
  with read_cells have "rows reread ! 0 ! Suc 2 = coerce_str ?e (rows f ! 0 ! 2)"
    by blast
  moreover have three: "(3::nat) = Suc 2"
    by simp
  ultimately have "rows reread ! 0 ! 3 = Str ''Hof Nord''"
    by (simp only: three coerce_str_def stripped three_units_trip)
  with f stripped rb show ?thesis
    using three_units_raw by (simp add: three_units_raw)
qed

text \<open>
  Claim C6 as stated fails for the round trip: the location \<^verbatim>\<open>"NA"\<close> is stripped to
  \<^verbatim>\<open>NA\<close>, written, and read back as a missing cell, in a row that has the added \<^verbatim>\<open>lid\<close>
  cell, so the row read back is not the original row without its double quotes.
\<close>

theorem get_power_unit_read_back_counterexample:
  "bind_GetGefilterteListeStromErzeuger (mock_env na_units) 0 2
     = Inr [[(''EinheitMastrNummer'', Str ''SEE9''), (''Einheittyp'', Str ''Windeinheit''),
             (''Standort'', Str [CHR 0x22, CHR ''N'', CHR ''A'', CHR 0x22]),
             (''EegMastrNummer'', NaN)]] \<and>
   fst (get_power_unit (mock_env na_units) 0 2 empty_world) = Inr na_frame \<and>
   rows na_frame = [[Str ''SEE9'', Str ''Windeinheit'', Str ''NA'', NaN, Str ''v1'', Str ''t0'']] \<and>
   read_power_units (mock_env na_units) ''f.csv'' (write_to_csv ''f.csv'' na_frame False empty_world)
     = Inr \<lparr>index_name = None,
            columns = [''lid'', ''EinheitMastrNummer'', ''Einheittyp'', ''Standort'',
                       ''EegMastrNummer'', ''version'', ''timestamp''],
            index = [0],
            rows = [[Str ''0'', Str ''SEE9'', Str ''Windeinheit'', NaN, NaN, Str ''v1'', Str ''t0'']]\<rparr>"
  by code_simp

end
